theory Spec2Isabelle
  imports Main "HOL-Library.AList"
begin

section \<open>JavaScript values\<close>

text \<open>
  The values that flow through \<^verbatim>\<open>src/components/connectAdvanced.js\<close>. An object is
  its address together with its own enumerable properties in insertion order; a
  function is its address. The source never writes to the objects it is given or
  creates (props, context values, stores, payloads, nodes), so an object value is a
  snapshot that stays valid. The mutable cells of the source (the \<^verbatim>\<open>useRef\<close> objects,
  the closure variables of \<^verbatim>\<open>subscribeUpdates\<close>, the state of the reducer) are fields
  of the records further down. Numbers are integers plus \<^verbatim>\<open>NaN\<close>; the source does no
  arithmetic on them.
\<close>

datatype jsval =
    Undefined
  | Null
  | JBool bool
  | JNum int
  | JNaN
  | JStr string
  | JFun nat
  | JObj nat "(string \<times> jsval) list"

text \<open>\<^verbatim>\<open>Boolean(x)\<close>, the test of \<^verbatim>\<open>if (x)\<close>, \<^verbatim>\<open>!x\<close> and \<^verbatim>\<open>x && y\<close>.\<close>

fun js_truthy :: "jsval \<Rightarrow> bool" where
  "js_truthy Undefined = False"
| "js_truthy Null = False"
| "js_truthy (JBool b) = b"
| "js_truthy (JNum n) = (n \<noteq> 0)"
| "js_truthy JNaN = False"
| "js_truthy (JStr s) = (s \<noteq> [])"
| "js_truthy (JFun f) = True"
| "js_truthy (JObj a fs) = True"

text \<open>\<^verbatim>\<open>Object.is\<close>, which React uses to compare hook dependencies: objects and
  functions by address, primitives by value.\<close>

fun js_same_value :: "jsval \<Rightarrow> jsval \<Rightarrow> bool" where
  "js_same_value (JObj a fs) (JObj b gs) = (a = b)"
| "js_same_value x y = (x = y)"

text \<open>\<^verbatim>\<open>x === y\<close>: as \<^verbatim>\<open>Object.is\<close>, except that \<^verbatim>\<open>NaN\<close> is not equal to itself.\<close>

definition js_strict_eq :: "jsval \<Rightarrow> jsval \<Rightarrow> bool" where
  "js_strict_eq x y = (x \<noteq> JNaN \<and> js_same_value x y)"

text \<open>What the source can throw: a \<^verbatim>\<open>TypeError\<close> of the language (a property read on
  \<^verbatim>\<open>null\<close> or \<^verbatim>\<open>undefined\<close>, a call of a non-function), \<^verbatim>\<open>new Error(message)\<close>,
  or a value thrown by user code and re-thrown as it is.\<close>

datatype exn = TypeError | NewError string | Thrown jsval

text \<open>\<^verbatim>\<open>o.k\<close> for an \<^verbatim>\<open>o\<close> that is neither \<^verbatim>\<open>null\<close> nor \<^verbatim>\<open>undefined\<close>. Primitives
  and functions have none of the properties the source reads (\<^verbatim>\<open>store\<close>,
  \<^verbatim>\<open>getState\<close>, \<^verbatim>\<open>dispatch\<close>, \<^verbatim>\<open>context\<close>, \<^verbatim>\<open>Consumer\<close>, \<^verbatim>\<open>subscription\<close>,
  \<^verbatim>\<open>error\<close>).\<close>

fun js_prop :: "jsval \<Rightarrow> string \<Rightarrow> jsval" where
  "js_prop (JObj a fs) k = (case map_of fs k of Some v \<Rightarrow> v | None \<Rightarrow> Undefined)"
| "js_prop v k = Undefined"

text \<open>\<^verbatim>\<open>o.k\<close> in general: reading a property of \<^verbatim>\<open>null\<close> or \<^verbatim>\<open>undefined\<close> throws.\<close>

definition js_get :: "jsval \<Rightarrow> string \<Rightarrow> exn + jsval" where
  "js_get v k = (if v = Undefined \<or> v = Null then Inl TypeError else Inr (js_prop v k))"

text \<open>The own enumerable properties copied by a spread or a rest pattern. The source
  spreads the props object and a context value that has a \<^verbatim>\<open>store\<close>, both objects.\<close>

fun own_props :: "jsval \<Rightarrow> (string \<times> jsval) list" where
  "own_props (JObj a fs) = fs"
| "own_props v = []"

section \<open>Collaborators outside the source file\<close>

text \<open>The derivation function \<^verbatim>\<open>childPropsSelector(state, ownProps)\<close>: \<open>Inr\<close> the merged
  props it returns, \<open>Inl\<close> the value it throws.\<close>

type_synonym selector = "jsval \<Rightarrow> jsval \<Rightarrow> jsval + jsval"

text \<open>The world at the moment of a call: the build mode
  (\<^verbatim>\<open>process.env.NODE_ENV === 'production'\<close>), what each function returns when called
  with no argument (read for \<^verbatim>\<open>store.getState()\<close>, so it carries the current state of
  every store), the current value of every React context (\<^verbatim>\<open>useContext\<close>), and
  \<^verbatim>\<open>isContextConsumer(<C />)\<close> of \<^verbatim>\<open>react-is\<close> for a consumer value \<^verbatim>\<open>C\<close>.\<close>

record env =
  production :: bool
  call_fn :: "nat \<Rightarrow> jsval"
  useContext :: "jsval \<Rightarrow> jsval"
  isContextConsumer :: "jsval \<Rightarrow> bool"

text \<open>\<^verbatim>\<open>store.getState()\<close>: a \<^verbatim>\<open>TypeError\<close> unless \<^verbatim>\<open>store.getState\<close> is a function.\<close>

definition call_getState :: "env \<Rightarrow> jsval \<Rightarrow> exn + jsval" where
  "call_getState e store =
     (case js_get store ''getState'' of
        Inl x \<Rightarrow> Inl x
      | Inr g \<Rightarrow> (case g of JFun f \<Rightarrow> Inr (call_fn e f) | _ \<Rightarrow> Inl TypeError))"

text \<open>What the instance does to the outside, in order.\<close>

datatype event =
    GetState jsval
  | Select jsval jsval
  | Call jsval
  | SetOnStateChange jsval bool
  | TrySubscribe jsval
  | TryUnsubscribe jsval

section \<open>The state of one mounted instance\<close>

text \<open>The action passed to \<^verbatim>\<open>forceComponentUpdateDispatch\<close>.\<close>

record action =
  action_type :: string
  payload :: jsval

text \<open>
  One record holds what React keeps for a mounted \<^verbatim>\<open>ConnectFunction\<close>: the cells of
  its \<^verbatim>\<open>useMemo\<close> calls (the dependencies and the value of the last computation),
  the \<^verbatim>\<open>useReducer\<close> state \<^verbatim>\<open>[payload, updateCount]\<close> with the queue of actions
  dispatched since the last render, and the four \<^verbatim>\<open>useRef\<close> cells. \<open>mounted\<close> tells
  whether the hooks have been initialised by a first render. \<open>trace\<close> collects the
  events and \<open>next_addr\<close> is the next unused address.
\<close>

record inst =
  memo_wrapperProps :: "(jsval list \<times> (jsval \<times> jsval \<times> jsval)) option"
  memo_childPropsSelector :: "(jsval list \<times> selector) option"
  memo_subscription :: "(jsval list \<times> (jsval \<times> jsval)) option"
  memo_overriddenContextValue :: "(jsval list \<times> jsval) option"
  memo_actualChildProps :: "(jsval list \<times> jsval) option"
  stateUpdates :: "jsval \<times> nat"
  updateQueue :: "action list"
  mounted :: bool
  lastChildProps :: jsval
  lastWrapperProps :: jsval
  childPropsFromStoreUpdate :: jsval
  renderIsScheduled :: bool
  trace :: "event list"
  next_addr :: nat

text \<open>\<^verbatim>\<open>initStateUpdates\<close> and the instance before its first render.\<close>

definition initStateUpdates :: "jsval \<times> nat" where
  "initStateUpdates = (Null, 0)"

definition init_inst :: "nat \<Rightarrow> inst" where
  "init_inst a =
     \<lparr> memo_wrapperProps = None, memo_childPropsSelector = None, memo_subscription = None,
       memo_overriddenContextValue = None, memo_actualChildProps = None,
       stateUpdates = initStateUpdates, updateQueue = [], mounted = False,
       lastChildProps = Undefined, lastWrapperProps = Undefined,
       childPropsFromStoreUpdate = Undefined, renderIsScheduled = False,
       trace = [], next_addr = a \<rparr>"

text \<open>\<^verbatim>\<open>storeStateUpdatesReducer\<close>.\<close>

definition storeStateUpdatesReducer :: "jsval \<times> nat \<Rightarrow> action \<Rightarrow> jsval \<times> nat" where
  "storeStateUpdatesReducer state act =
     (case state of (_, updateCount) \<Rightarrow> (payload act, updateCount + 1))"

text \<open>\<^verbatim>\<open>forceComponentUpdateDispatch({type: 'STORE_UPDATED', payload: {error}})\<close>: the
  payload is a new object; React queues the action and re-renders the instance, and
  the reducer runs over the queue at that render.\<close>

definition forceComponentUpdateDispatch :: "jsval \<Rightarrow> inst \<Rightarrow> inst" where
  "forceComponentUpdateDispatch error i =
     i\<lparr> updateQueue := updateQueue i @
          [\<lparr> action_type = ''STORE_UPDATED'',
             payload = JObj (next_addr i) [(''error'', error)] \<rparr>],
        next_addr := Suc (next_addr i) \<rparr>"

text \<open>A call \<^verbatim>\<open>f()\<close> of \<^verbatim>\<open>notifyNestedSubs\<close>: it runs the callbacks of the child
  nodes, which belong to other instances, so for this instance it is an event.\<close>

definition js_call :: "jsval \<Rightarrow> inst \<Rightarrow> exn option \<times> inst" where
  "js_call f i =
     (case f of
        JFun n \<Rightarrow> (None, i\<lparr> trace := trace i @ [Call f] \<rparr>)
      | _ \<Rightarrow> (Some TypeError, i))"

section \<open>The post-commit step\<close>

text \<open>\<^verbatim>\<open>captureWrapperProps\<close>. The four ref arguments of the source are the fields of
  the instance. The result is the exception that escaped, if any, and the state
  reached.\<close>

definition captureWrapperProps :: "jsval \<Rightarrow> jsval \<Rightarrow> jsval \<Rightarrow> inst \<Rightarrow> exn option \<times> inst" where
  "captureWrapperProps wrapperProps actualChildProps notifyNestedSubs i =
     (let i1 = i\<lparr> lastWrapperProps := wrapperProps,
                  lastChildProps := actualChildProps,
                  renderIsScheduled := False \<rparr>
      in if js_truthy (childPropsFromStoreUpdate i1)
         then js_call notifyNestedSubs (i1\<lparr> childPropsFromStoreUpdate := Null \<rparr>)
         else (None, i1))"

section \<open>The subscription effect\<close>

text \<open>The variables one call of \<^verbatim>\<open>subscribeUpdates\<close> closes over: its arguments and
  its two locals \<^verbatim>\<open>didUnsubscribe\<close> and \<^verbatim>\<open>lastThrownError\<close>. Every run of the
  effect has a closure of its own; all of them share the refs of the instance.\<close>

record closure =
  cl_store :: jsval
  cl_subscription :: jsval
  cl_childPropsSelector :: selector
  cl_notifyNestedSubs :: jsval
  didUnsubscribe :: bool
  lastThrownError :: jsval

text \<open>\<^verbatim>\<open>checkForUpdates\<close>, lines 77 to 125.\<close>

definition checkForUpdates :: "env \<Rightarrow> closure \<Rightarrow> inst \<Rightarrow> exn option \<times> closure \<times> inst" where
  "checkForUpdates e c i =
     (if didUnsubscribe c then (None, c, i)
      else
        (case call_getState e (cl_store c) of
           Inl x \<Rightarrow> (Some x, c, i)
         | Inr latestStoreState \<Rightarrow>
            (let i1 = i\<lparr> trace := trace i @
                          [GetState (cl_store c), Select latestStoreState (lastWrapperProps i)] \<rparr>;
                 r = cl_childPropsSelector c latestStoreState (lastWrapperProps i);
                 newChildProps = (case r of Inr v \<Rightarrow> v | Inl x \<Rightarrow> Undefined);
                 error = (case r of Inr v \<Rightarrow> Undefined | Inl x \<Rightarrow> x);
                 c1 = (case r of Inr v \<Rightarrow> c | Inl x \<Rightarrow> c\<lparr> lastThrownError := x \<rparr>);
                 c2 = (if \<not> js_truthy error then c1\<lparr> lastThrownError := Null \<rparr> else c1)
             in if js_strict_eq newChildProps (lastChildProps i1)
                then (if \<not> renderIsScheduled i1
                      then (case js_call (cl_notifyNestedSubs c) i1 of (x, i2) \<Rightarrow> (x, c2, i2))
                      else (None, c2, i1))
                else (None, c2,
                      forceComponentUpdateDispatch error
                        (i1\<lparr> lastChildProps := newChildProps,
                             childPropsFromStoreUpdate := newChildProps,
                             renderIsScheduled := True \<rparr>)))))"

text \<open>Modelled from the spec: the class \<^verbatim>\<open>Subscription\<close> of \<^verbatim>\<open>utils/Subscription\<close> is
  not among the sources. A notification node is an object; \<^verbatim>\<open>trySubscribe()\<close>,
  \<^verbatim>\<open>tryUnsubscribe()\<close> and the assignment of its \<^verbatim>\<open>onStateChange\<close> slot are events
  that do not throw (the spec's contract of the node: both calls are idempotent). On
  anything that is not an object the assignment throws a \<^verbatim>\<open>TypeError\<close>.\<close>

fun is_node :: "jsval \<Rightarrow> bool" where
  "is_node (JObj a fs) = True"
| "is_node v = False"

text \<open>\<^verbatim>\<open>unsubscribeWrapper\<close>, lines 135 to 148.\<close>

definition unsubscribeWrapper :: "closure \<Rightarrow> inst \<Rightarrow> exn option \<times> closure \<times> inst" where
  "unsubscribeWrapper c i =
     (let c1 = c\<lparr> didUnsubscribe := True \<rparr>
      in if \<not> is_node (cl_subscription c) then (Some TypeError, c1, i)
         else
           (let i1 = i\<lparr> trace := trace i @
                         [TryUnsubscribe (cl_subscription c),
                          SetOnStateChange (cl_subscription c) False] \<rparr>
            in if js_truthy (lastThrownError c1)
               then (Some (Thrown (lastThrownError c1)), c1, i1)
               else (None, c1, i1)))"

text \<open>\<^verbatim>\<open>subscribeUpdates\<close>, lines 55 to 151. It returns \<^verbatim>\<open>undefined\<close> (here \<open>None\<close>)
  when the instance does not handle state changes, and otherwise the teardown, which
  is \<open>unsubscribeWrapper\<close> on the closure returned here. An exception that escapes
  the first pass leaves no teardown behind.\<close>

definition subscribeUpdates ::
  "env \<Rightarrow> bool \<Rightarrow> jsval \<Rightarrow> jsval \<Rightarrow> selector \<Rightarrow> jsval \<Rightarrow> inst \<Rightarrow> exn option \<times> closure option \<times> inst"
where
  "subscribeUpdates e shouldHandleStateChanges store subscription childPropsSelector
       notifyNestedSubs i =
     (if \<not> shouldHandleStateChanges then (None, None, i)
      else
        (let c = \<lparr> cl_store = store, cl_subscription = subscription,
                   cl_childPropsSelector = childPropsSelector,
                   cl_notifyNestedSubs = notifyNestedSubs,
                   didUnsubscribe = False, lastThrownError = Null \<rparr>
         in if \<not> is_node subscription then (Some TypeError, None, i)
            else
              (case checkForUpdates e c
                      (i\<lparr> trace := trace i @
                            [SetOnStateChange subscription True, TrySubscribe subscription] \<rparr>) of
                 (Some x, c', i') \<Rightarrow> (Some x, None, i')
               | (None, c', i') \<Rightarrow> (None, Some c', i'))))"

section \<open>The wrapper component\<close>

text \<open>What \<^verbatim>\<open>connectAdvanced\<close> and \<^verbatim>\<open>wrapWithConnect\<close> fix for every instance:
  \<^verbatim>\<open>selectorFactory(dispatch, selectorFactoryOptions)\<close> as a function of the dispatch it
  is given, the options \<^verbatim>\<open>shouldHandleStateChanges\<close> and \<^verbatim>\<open>pure\<close> (whether
  \<^verbatim>\<open>connectOptions.pure\<close> is truthy), the computed \<^verbatim>\<open>displayName\<close> and the default
  \<^verbatim>\<open>Context\<close>.\<close>

record config =
  selectorFactory :: "jsval \<Rightarrow> selector"
  shouldHandleStateChanges :: bool
  pure :: bool
  displayName :: string
  Context :: jsval

text \<open>What one render hands to React: the element of the wrapped component (its props
  and its ref), the context provider around it when there is one, and the values the
  two layout effects are registered with.\<close>

record rendered =
  r_ContextToUse :: jsval
  r_contextValue :: jsval
  r_store :: jsval
  r_didStoreComeFromProps :: bool
  r_childPropsSelector :: selector
  r_subscription :: jsval
  r_notifyNestedSubs :: jsval
  r_overriddenContextValue :: jsval
  r_wrapperProps :: jsval
  r_reactReduxForwardedRef :: jsval
  r_actualChildProps :: jsval
  r_provider :: "(jsval \<times> jsval) option"

text \<open>A render either throws, after the events it has caused, or returns its output
  and the hooks as they are when it commits.\<close>

datatype render_result =
    Threw (thrown: exn) (caused: "event list")
  | Rendered (the_output: rendered) (the_hooks: inst)

text \<open>React's \<^verbatim>\<open>useMemo\<close>: the value of the last computation is reused when every
  dependency is \<^verbatim>\<open>Object.is\<close>-equal to the one of that computation.\<close>

definition areHookInputsEqual :: "jsval list \<Rightarrow> jsval list \<Rightarrow> bool" where
  "areHookInputsEqual nextDeps prevDeps = list_all2 js_same_value nextDeps prevDeps"

definition memo_lookup :: "(jsval list \<times> 'a) option \<Rightarrow> jsval list \<Rightarrow> 'a option" where
  "memo_lookup cell deps =
     (case cell of
        None \<Rightarrow> None
      | Some (prevDeps, v) \<Rightarrow> if areHookInputsEqual deps prevDeps then Some v else None)"

text \<open>The first render of an instance starts from fresh hooks.\<close>

definition begin_render :: "inst \<Rightarrow> inst" where
  "begin_render i = (if mounted i then i else (init_inst (next_addr i))\<lparr> trace := trace i \<rparr>)"

text \<open>Lines 295 to 302: the rest pattern takes \<^verbatim>\<open>reactReduxForwardedRef\<close> out of a
  new object \<^verbatim>\<open>wrapperProps\<close>; \<^verbatim>\<open>props.context\<close> is only read.\<close>

definition useWrapperProps :: "jsval \<Rightarrow> inst \<Rightarrow> (jsval \<times> jsval \<times> jsval) \<times> inst" where
  "useWrapperProps props i =
     (case memo_lookup (memo_wrapperProps i) [props] of
        Some v \<Rightarrow> (v, i)
      | None \<Rightarrow>
         (let reactReduxForwardedRef = js_prop props ''reactReduxForwardedRef'';
              wrapperProps =
                JObj (next_addr i) (AList.delete ''reactReduxForwardedRef'' (own_props props));
              v = (js_prop props ''context'', reactReduxForwardedRef, wrapperProps)
          in (v, i\<lparr> memo_wrapperProps := Some ([props], v),
                    next_addr := Suc (next_addr i) \<rparr>)))"

text \<open>Lines 305 to 315. The computation depends on its two dependencies only, so its
  \<^verbatim>\<open>useMemo\<close> is not observable and has no cell.\<close>

definition chooseContext :: "env \<Rightarrow> config \<Rightarrow> jsval \<Rightarrow> jsval" where
  "chooseContext e cfg propsContext =
     (if js_truthy propsContext \<and> js_truthy (js_prop propsContext ''Consumer'') \<and>
         isContextConsumer e (js_prop propsContext ''Consumer'')
      then propsContext else Context cfg)"

definition storeNotFoundMessage :: "string \<Rightarrow> string" where
  "storeNotFoundMessage name =
     ''Could not find '' @ [CHR 0x22] @ ''store'' @ [CHR 0x22] @ '' in the context of '' @
     [CHR 0x22] @ name @ [CHR 0x22] @
     ''. Either wrap the root component in a <Provider>, '' @
     ''or pass a custom React context provider to <Provider> and the corresponding '' @
     ''React context consumer to '' @ name @ '' in connect options.''"

text \<open>Lines 328 to 351: the store and whether it came from the props.\<close>

definition resolveStore :: "env \<Rightarrow> config \<Rightarrow> jsval \<Rightarrow> jsval \<Rightarrow> exn + (jsval \<times> bool)" where
  "resolveStore e cfg props contextValue =
     (let didStoreComeFromProps =
            (js_truthy (js_prop props ''store'') \<and>
             js_truthy (js_prop (js_prop props ''store'') ''getState'') \<and>
             js_truthy (js_prop (js_prop props ''store'') ''dispatch''));
          didStoreComeFromContext =
            (js_truthy contextValue \<and> js_truthy (js_prop contextValue ''store''))
      in if \<not> production e \<and> \<not> didStoreComeFromProps \<and> \<not> didStoreComeFromContext
         then Inl (NewError (storeNotFoundMessage (displayName cfg)))
         else if didStoreComeFromProps then Inr (js_prop props ''store'', True)
         else (case js_get contextValue ''store'' of
                 Inl x \<Rightarrow> Inl x
               | Inr store \<Rightarrow> Inr (store, False)))"

text \<open>Lines 354 to 358, with \<^verbatim>\<open>createChildSelector\<close> of lines 279 to 282.\<close>

definition useChildPropsSelector :: "config \<Rightarrow> jsval \<Rightarrow> inst \<Rightarrow> exn + (selector \<times> inst)" where
  "useChildPropsSelector cfg store i =
     (case memo_lookup (memo_childPropsSelector i) [store] of
        Some sel \<Rightarrow> Inr (sel, i)
      | None \<Rightarrow>
         (case js_get store ''dispatch'' of
            Inl x \<Rightarrow> Inl x
          | Inr dispatch \<Rightarrow>
             Inr (selectorFactory cfg dispatch,
                  i\<lparr> memo_childPropsSelector := Some ([store], selectorFactory cfg dispatch) \<rparr>)))"

text \<open>Lines 360 to 380. Modelled from the spec: the class \<^verbatim>\<open>Subscription\<close> is not among
  the sources; \<^verbatim>\<open>new Subscription(store, parentSub)\<close> is a new object that holds its two
  arguments, and \<^verbatim>\<open>subscription.notifyNestedSubs.bind(subscription)\<close> is a new function.\<close>

definition useSubscription ::
  "config \<Rightarrow> jsval \<Rightarrow> bool \<Rightarrow> jsval \<Rightarrow> inst \<Rightarrow> exn + ((jsval \<times> jsval) \<times> inst)"
where
  "useSubscription cfg store didStoreComeFromProps contextValue i =
     (let deps = [store, JBool didStoreComeFromProps, contextValue]
      in case memo_lookup (memo_subscription i) deps of
           Some v \<Rightarrow> Inr (v, i)
         | None \<Rightarrow>
            if \<not> shouldHandleStateChanges cfg
            then Inr ((Null, Null), i\<lparr> memo_subscription := Some (deps, (Null, Null)) \<rparr>)
            else
              (case (if didStoreComeFromProps then Inr Null
                     else js_get contextValue ''subscription'') of
                 Inl x \<Rightarrow> Inl x
               | Inr parentSub \<Rightarrow>
                  (let subscription =
                         JObj (next_addr i) [(''store'', store), (''parentSub'', parentSub)];
                       notifyNestedSubs = JFun (Suc (next_addr i))
                   in Inr ((subscription, notifyNestedSubs),
                           i\<lparr> memo_subscription := Some (deps, (subscription, notifyNestedSubs)),
                              next_addr := Suc (Suc (next_addr i)) \<rparr>))))"

text \<open>Lines 384 to 398: \<^verbatim>\<open>{...contextValue, subscription}\<close> is a new object.\<close>

definition useOverriddenContextValue :: "bool \<Rightarrow> jsval \<Rightarrow> jsval \<Rightarrow> inst \<Rightarrow> jsval \<times> inst" where
  "useOverriddenContextValue didStoreComeFromProps contextValue subscription i =
     (let deps = [JBool didStoreComeFromProps, contextValue, subscription]
      in case memo_lookup (memo_overriddenContextValue i) deps of
           Some v \<Rightarrow> (v, i)
         | None \<Rightarrow>
            if didStoreComeFromProps
            then (contextValue, i\<lparr> memo_overriddenContextValue := Some (deps, contextValue) \<rparr>)
            else
              (let v = JObj (next_addr i)
                         (AList.update ''subscription'' subscription (own_props contextValue))
               in (v, i\<lparr> memo_overriddenContextValue := Some (deps, v),
                         next_addr := Suc (next_addr i) \<rparr>)))"

text \<open>Lines 402 and 403: \<^verbatim>\<open>useReducer\<close> runs the reducer over the queued actions and
  returns the payload of the state reached.\<close>

definition useStateUpdates :: "inst \<Rightarrow> jsval \<times> inst" where
  "useStateUpdates i =
     (let st = foldl storeStateUpdatesReducer (stateUpdates i) (updateQueue i)
      in (fst st, i\<lparr> stateUpdates := st, updateQueue := [] \<rparr>))"

text \<open>Lines 412 to 415: the initial values of the four refs, at the first render.\<close>

definition useRefs :: "jsval \<Rightarrow> inst \<Rightarrow> inst" where
  "useRefs wrapperProps i =
     (if mounted i then i
      else i\<lparr> lastChildProps := Undefined, lastWrapperProps := wrapperProps,
              childPropsFromStoreUpdate := Undefined, renderIsScheduled := False \<rparr>)"

text \<open>Lines 417 to 440. \<^verbatim>\<open>usePureOnlyMemo\<close> is \<^verbatim>\<open>useMemo\<close> in pure mode and calls the
  callback at once otherwise.\<close>

definition useActualChildProps ::
  "env \<Rightarrow> config \<Rightarrow> jsval \<Rightarrow> selector \<Rightarrow> jsval \<Rightarrow> jsval \<Rightarrow> inst \<Rightarrow> (exn + jsval) \<times> event list \<times> inst"
where
  "useActualChildProps e cfg store childPropsSelector previousStateUpdateResult wrapperProps i =
     (let deps = [store, previousStateUpdateResult, wrapperProps]
      in case (if pure cfg then memo_lookup (memo_actualChildProps i) deps else None) of
           Some v \<Rightarrow> (Inr v, [], i)
         | None \<Rightarrow>
            if js_truthy (childPropsFromStoreUpdate i) \<and>
               js_strict_eq wrapperProps (lastWrapperProps i)
            then (Inr (childPropsFromStoreUpdate i), [],
                  if pure cfg
                  then i\<lparr> memo_actualChildProps := Some (deps, childPropsFromStoreUpdate i) \<rparr>
                  else i)
            else
              (case call_getState e store of
                 Inl x \<Rightarrow> (Inl x, [], i)
               | Inr s \<Rightarrow>
                  (case childPropsSelector s wrapperProps of
                     Inl x \<Rightarrow> (Inl (Thrown x), [GetState store, Select s wrapperProps], i)
                   | Inr v \<Rightarrow>
                      (Inr v, [GetState store, Select s wrapperProps],
                       if pure cfg then i\<lparr> memo_actualChildProps := Some (deps, v) \<rparr> else i))))"

text \<open>\<^verbatim>\<open>ConnectFunction\<close>, lines 292 to 504, called with the props object at address
  \<open>pa\<close> with properties \<open>pf\<close>.\<close>

definition ConnectFunction ::
  "env \<Rightarrow> config \<Rightarrow> nat \<Rightarrow> (string \<times> jsval) list \<Rightarrow> inst \<Rightarrow> render_result"
where
  "ConnectFunction e cfg pa pf i0 =
     (let props = JObj pa pf;
          ((propsContext, reactReduxForwardedRef, wrapperProps), i1) =
             useWrapperProps props (begin_render i0);
          ContextToUse = chooseContext e cfg propsContext;
          contextValue = useContext e ContextToUse
      in case resolveStore e cfg props contextValue of
           Inl x \<Rightarrow> Threw x []
         | Inr (store, didStoreComeFromProps) \<Rightarrow>
            (case useChildPropsSelector cfg store i1 of
               Inl x \<Rightarrow> Threw x []
             | Inr (childPropsSelector, i2) \<Rightarrow>
                (case useSubscription cfg store didStoreComeFromProps contextValue i2 of
                   Inl x \<Rightarrow> Threw x []
                 | Inr ((subscription, notifyNestedSubs), i3) \<Rightarrow>
                    (let (overriddenContextValue, i4) =
                           useOverriddenContextValue didStoreComeFromProps contextValue
                             subscription i3;
                         (previousStateUpdateResult, i5) = useStateUpdates i4
                     in if js_truthy previousStateUpdateResult \<and>
                           js_truthy (js_prop previousStateUpdateResult ''error'')
                        then Threw (Thrown (js_prop previousStateUpdateResult ''error'')) []
                        else
                          (case useActualChildProps e cfg store childPropsSelector
                                  previousStateUpdateResult wrapperProps
                                  (useRefs wrapperProps i5) of
                             (Inl x, evs, i6) \<Rightarrow> Threw x evs
                           | (Inr actualChildProps, evs, i6) \<Rightarrow>
                              Rendered
                                \<lparr> r_ContextToUse = ContextToUse,
                                  r_contextValue = contextValue,
                                  r_store = store,
                                  r_didStoreComeFromProps = didStoreComeFromProps,
                                  r_childPropsSelector = childPropsSelector,
                                  r_subscription = subscription,
                                  r_notifyNestedSubs = notifyNestedSubs,
                                  r_overriddenContextValue = overriddenContextValue,
                                  r_wrapperProps = wrapperProps,
                                  r_reactReduxForwardedRef = reactReduxForwardedRef,
                                  r_actualChildProps = actualChildProps,
                                  r_provider =
                                    (if shouldHandleStateChanges cfg
                                     then Some (ContextToUse, overriddenContextValue)
                                     else None) \<rparr>
                                (i6\<lparr> mounted := True, trace := trace i6 @ evs \<rparr>))))))"

section \<open>The layout effects and the ambient context\<close>

text \<open>The value a render reads from the ambient context (lines 295 to 320).\<close>

definition ambientContextValue ::
  "env \<Rightarrow> config \<Rightarrow> nat \<Rightarrow> (string \<times> jsval) list \<Rightarrow> inst \<Rightarrow> jsval"
where
  "ambientContextValue e cfg pa pf i =
     useContext e
       (chooseContext e cfg (fst (fst (useWrapperProps (JObj pa pf) (begin_render i)))))"

text \<open>The post-commit step of a render, as the first layout effect registers it.\<close>

definition commit :: "render_result \<Rightarrow> exn option \<times> inst" where
  "commit r =
     captureWrapperProps (r_wrapperProps (the_output r)) (r_actualChildProps (the_output r))
       (r_notifyNestedSubs (the_output r)) (the_hooks r)"

text \<open>The subscription effect of a render, as the second layout effect registers it,
  run on the instance \<open>i\<close>.\<close>

definition subscribe ::
  "env \<Rightarrow> config \<Rightarrow> render_result \<Rightarrow> inst \<Rightarrow> exn option \<times> closure option \<times> inst"
where
  "subscribe e cfg r i =
     subscribeUpdates e (shouldHandleStateChanges cfg) (r_store (the_output r))
       (r_subscription (the_output r)) (r_childPropsSelector (the_output r))
       (r_notifyNestedSubs (the_output r)) i"

text \<open>The store notifies the node of the instance once for every dispatch, and the
  node runs the callback of the live subscription effect each time, in the world of
  that moment. \<open>notifications es\<close> is a sequence of such passes; an exception that
  escapes a pass ends it.\<close>

fun notifications :: "env list \<Rightarrow> closure \<Rightarrow> inst \<Rightarrow> exn option \<times> closure \<times> inst" where
  "notifications [] c i = (None, c, i)"
| "notifications (e # es) c i =
     (case checkForUpdates e c i of
        (None, c', i') \<Rightarrow> notifications es c' i'
      | (Some x, c', i') \<Rightarrow> (Some x, c', i'))"

section \<open>What the memo cells hold\<close>

text \<open>
  A \<^verbatim>\<open>useMemo\<close> cell returns what an earlier render computed, so a property of a
  memoised value at every render is a property of the cells. These predicates say, in
  the words of the specification, how the three memoised values depend on the
  dependencies they were computed from: the split of the props, the wiring of the
  notification node, and the context value handed to the descendants.
\<close>

definition props_split :: "jsval \<Rightarrow> jsval \<times> jsval \<times> jsval \<Rightarrow> bool" where
  "props_split props v =
     (case v of (propsContext, reactReduxForwardedRef, wrapperProps) \<Rightarrow>
        propsContext = js_prop props ''context'' \<and>
        reactReduxForwardedRef = js_prop props ''reactReduxForwardedRef'' \<and>
        is_node wrapperProps \<and>
        own_props wrapperProps = AList.delete ''reactReduxForwardedRef'' (own_props props))"

definition node_wired :: "config \<Rightarrow> jsval \<Rightarrow> bool \<Rightarrow> jsval \<Rightarrow> jsval \<times> jsval \<Rightarrow> bool" where
  "node_wired cfg store fromProps contextValue v =
     (if shouldHandleStateChanges cfg
      then is_node (fst v) \<and>
           own_props (fst v) =
             [(''store'', store),
              (''parentSub'', if fromProps then Null else js_prop contextValue ''subscription'')] \<and>
           (case snd v of JFun n \<Rightarrow> True | _ \<Rightarrow> False)
      else v = (Null, Null))"

definition context_wired :: "bool \<Rightarrow> jsval \<Rightarrow> jsval \<Rightarrow> jsval \<Rightarrow> bool" where
  "context_wired fromProps contextValue subscription v =
     (if fromProps then v = contextValue
      else is_node v \<and>
           own_props v = AList.update ''subscription'' subscription (own_props contextValue))"

definition cells_wired :: "config \<Rightarrow> inst \<Rightarrow> bool" where
  "cells_wired cfg i =
     ((case memo_wrapperProps i of
         None \<Rightarrow> True
       | Some (deps, v) \<Rightarrow> (case deps of [props] \<Rightarrow> props_split props v | _ \<Rightarrow> False)) \<and>
      (case memo_subscription i of
         None \<Rightarrow> True
       | Some (deps, v) \<Rightarrow>
          (case deps of
             [store, fromProps, contextValue] \<Rightarrow>
               node_wired cfg store (fromProps = JBool True) contextValue v
           | _ \<Rightarrow> False)) \<and>
      (case memo_overriddenContextValue i of
         None \<Rightarrow> True
       | Some (deps, v) \<Rightarrow>
          (case deps of
             [fromProps, contextValue, subscription] \<Rightarrow>
               context_wired (fromProps = JBool True) contextValue subscription v
           | _ \<Rightarrow> False)))"

text \<open>
  The merged props of a render come from a call of the derivation function, made by
  that render, by an earlier one (through the memo cell of the merged props) or by a
  pass of the subscription effect (through the pending value).
  \<open>derived_from cfg (dispatch, s, wp) ownerProps v\<close> says that \<open>v\<close> is what the derivation
  function made by \<^verbatim>\<open>selectorFactory\<close> for \<open>dispatch\<close> returned on the state \<open>s\<close> and the
  owner props \<open>wp\<close>, and that \<open>wp\<close> is the object \<open>ownerProps\<close> (by \<^verbatim>\<open>Object.is\<close>). The
  predicates below say so of the pending value and the recorded last owner props, and
  of the memo cell and the owner props among its dependencies, and that the memoised
  derivation function was made by the factory. The dispatch, the state and the owner
  props of the call in question are parameters. An instance that has not been
  rendered yet holds nothing.
\<close>

definition derived_from :: "config \<Rightarrow> jsval \<times> jsval \<times> jsval \<Rightarrow> jsval \<Rightarrow> jsval \<Rightarrow> bool" where
  "derived_from cfg g ownerProps v =
     (case g of (dispatch, s, wp) \<Rightarrow>
        js_same_value ownerProps wp \<and> selectorFactory cfg dispatch s wp = Inr v)"

definition pending_derived :: "config \<Rightarrow> jsval \<times> jsval \<times> jsval \<Rightarrow> inst \<Rightarrow> bool" where
  "pending_derived cfg g i =
     (js_truthy (childPropsFromStoreUpdate i) \<longrightarrow>
      derived_from cfg g (lastWrapperProps i) (childPropsFromStoreUpdate i))"

definition cell_derived :: "config \<Rightarrow> jsval \<times> jsval \<times> jsval \<Rightarrow> inst \<Rightarrow> bool" where
  "cell_derived cfg g i =
     (case memo_actualChildProps i of
        None \<Rightarrow> True
      | Some (deps, v) \<Rightarrow>
         (case deps of
            [store, prev, wrapperProps] \<Rightarrow> derived_from cfg g wrapperProps v
          | _ \<Rightarrow> False))"

definition selector_made :: "config \<Rightarrow> jsval \<Rightarrow> inst \<Rightarrow> bool" where
  "selector_made cfg dispatch i =
     (case memo_childPropsSelector i of
        None \<Rightarrow> True
      | Some (deps, sel) \<Rightarrow> sel = selectorFactory cfg dispatch)"

definition props_derived ::
  "config \<Rightarrow> jsval \<times> jsval \<times> jsval \<Rightarrow> jsval \<times> jsval \<times> jsval \<Rightarrow> jsval \<Rightarrow> inst \<Rightarrow> bool"
where
  "props_derived cfg gp gc dispatch i =
     (mounted i \<longrightarrow>
      pending_derived cfg gp i \<and> cell_derived cfg gc i \<and> selector_made cfg dispatch i)"

section \<open>A concrete application\<close>

text \<open>
  A store whose state is a number, a provider that puts the store and its root
  notification node into the default context, and a derivation function that returns
  a props object per state, the same object for the same state, and throws an error
  object on a negative state. \<open>ex_env st\<close> is the world while the state of the store
  is \<open>st\<close>.
\<close>

definition ex_store :: jsval where
  "ex_store = JObj 1 [(''getState'', JFun 2), (''dispatch'', JFun 3)]"

definition ex_contextValue :: jsval where
  "ex_contextValue = JObj 4 [(''store'', ex_store), (''subscription'', JObj 5 [])]"

definition ex_Context :: jsval where
  "ex_Context = JObj 6 []"

definition ex_env :: "jsval \<Rightarrow> env" where
  "ex_env st =
     \<lparr> production = False,
       call_fn = (\<lambda>f. if f = 2 then st else Undefined),
       useContext = (\<lambda>c. ex_contextValue),
       isContextConsumer = (\<lambda>c. js_same_value c (JObj 70 [])) \<rparr>"

definition ex_selector :: selector where
  "ex_selector s ownProps =
     (case s of
        JNum n \<Rightarrow>
          if n < 0 then Inl (JObj (nat (200 - n)) [(''message'', JStr ''bad state'')])
          else Inr (JObj (nat (100 + n)) [(''count'', JNum n)])
      | _ \<Rightarrow> Inr Undefined)"

definition ex_config :: "bool \<Rightarrow> bool \<Rightarrow> config" where
  "ex_config handles isPure =
     \<lparr> selectorFactory = (\<lambda>dispatch. ex_selector),
       shouldHandleStateChanges = handles,
       pure = isPure,
       displayName = ''Connect(App)'',
       Context = ex_Context \<rparr>"

text \<open>The owner renders the component with the props object \<^verbatim>\<open>{a: 1}\<close> at address 20;
  the instance allocates from address 30 on.\<close>

definition ex_mount :: "bool \<Rightarrow> bool \<Rightarrow> jsval \<Rightarrow> render_result" where
  "ex_mount handles isPure st =
     ConnectFunction (ex_env st) (ex_config handles isPure) 20 [(''a'', JNum 1)] (init_inst 30)"

text \<open>The mounted instance: first render while the state of the store is 1, commit,
  subscription.\<close>

definition ex_subscribed :: "exn option \<times> closure option \<times> inst" where
  "ex_subscribed =
     subscribe (ex_env (JNum 1)) (ex_config True True) (ex_mount True True (JNum 1))
       (snd (commit (ex_mount True True (JNum 1))))"

definition ex_closure :: closure where
  "ex_closure = the (fst (snd ex_subscribed))"

definition ex_inst :: inst where
  "ex_inst = snd (snd ex_subscribed)"

text \<open>Two store updates arrive before React renders again; the derivation function
  throws on both states. Then React renders.\<close>

definition ex_first_error :: "exn option \<times> closure \<times> inst" where
  "ex_first_error = checkForUpdates (ex_env (JNum (- 1))) ex_closure ex_inst"

definition ex_second_error :: "exn option \<times> closure \<times> inst" where
  "ex_second_error =
     checkForUpdates (ex_env (JNum (- 2))) (fst (snd ex_first_error)) (snd (snd ex_first_error))"

definition ex_render_after_errors :: render_result where
  "ex_render_after_errors =
     ConnectFunction (ex_env (JNum (- 2))) (ex_config True True) 20 [(''a'', JNum 1)]
       (snd (snd ex_second_error))"

text \<open>The same component over a store whose first state is \<^verbatim>\<open>null\<close>, for which the
  derivation function returns \<^verbatim>\<open>undefined\<close>; then the state becomes -1.\<close>

definition ex_subscribed_undefined :: "exn option \<times> closure option \<times> inst" where
  "ex_subscribed_undefined =
     subscribe (ex_env Null) (ex_config True True) (ex_mount True True Null)
       (snd (commit (ex_mount True True Null)))"

definition ex_error_on_undefined :: "exn option \<times> closure \<times> inst" where
  "ex_error_on_undefined =
     checkForUpdates (ex_env (JNum (- 1))) (the (fst (snd ex_subscribed_undefined)))
       (snd (snd ex_subscribed_undefined))"

text \<open>A store update to state 2 reaches the mounted instance, and React renders it.\<close>

definition ex_changed :: "exn option \<times> closure \<times> inst" where
  "ex_changed = checkForUpdates (ex_env (JNum 2)) ex_closure ex_inst"

definition ex_render_after_change :: render_result where
  "ex_render_after_change =
     ConnectFunction (ex_env (JNum 2)) (ex_config True True) 20 [(''a'', JNum 1)]
       (snd (snd ex_changed))"

text \<open>While that render is scheduled, two more notifications reach the instance, the
  state of the store still being 2. Then React renders and commits.\<close>

definition ex_unchanged_twice :: "exn option \<times> closure \<times> inst" where
  "ex_unchanged_twice =
     notifications [ex_env (JNum 2), ex_env (JNum 2)]
       (fst (snd ex_changed)) (snd (snd ex_changed))"

definition ex_render_after_unchanged :: render_result where
  "ex_render_after_unchanged =
     ConnectFunction (ex_env (JNum 2)) (ex_config True True) 20 [(''a'', JNum 1)]
       (snd (snd ex_unchanged_twice))"

definition ex_commit_after_unchanged :: "exn option \<times> inst" where
  "ex_commit_after_unchanged = commit ex_render_after_unchanged"

text \<open>A pure instance that does not handle state changes is rendered a second time
  with the same props object, because its provider has been rendered again with a new
  context value object around the same store; meanwhile the state of the store has
  become 2.\<close>

definition ex_env_new_context :: "jsval \<Rightarrow> env" where
  "ex_env_new_context st =
     \<lparr> production = False,
       call_fn = (\<lambda>f. if f = 2 then st else Undefined),
       useContext = (\<lambda>c. JObj 40 [(''store'', ex_store), (''subscription'', JObj 5 [])]),
       isContextConsumer = (\<lambda>c. False) \<rparr>"

definition ex_pure_second_render :: render_result where
  "ex_pure_second_render =
     ConnectFunction (ex_env_new_context (JNum 2)) (ex_config False True) 20 [(''a'', JNum 1)]
       (snd (commit (ex_mount False True (JNum 1))))"

text \<open>A production build without any provider: the default context holds \<^verbatim>\<open>null\<close>.\<close>

definition ex_env_production :: env where
  "ex_env_production =
     \<lparr> production = True, call_fn = (\<lambda>f. Undefined), useContext = (\<lambda>c. Null),
       isContextConsumer = (\<lambda>c. False) \<rparr>"

text \<open>The development build without any provider.\<close>

definition ex_env_no_provider :: env where
  "ex_env_no_provider =
     \<lparr> production = False, call_fn = (\<lambda>f. Undefined), useContext = (\<lambda>c. Null),
       isContextConsumer = (\<lambda>c. False) \<rparr>"




text \<open>The owner passes a store of its own as a prop.\<close>

definition ex_props_with_store :: "(string \<times> jsval) list" where
  "ex_props_with_store =
     [(''store'', JObj 9 [(''getState'', JFun 2), (''dispatch'', JFun 3)]), (''a'', JNum 1)]"

section \<open>Evaluation of the concrete application\<close>

text \<open>The definitions unfold by rewriting; the concrete application is evaluated with
  them once, and the results are used below.\<close>

lemmas js_defs = js_get_def js_strict_eq_def call_getState_def js_call_def

lemmas hook_defs = ConnectFunction_def begin_render_def init_inst_def initStateUpdates_def
  useWrapperProps_def chooseContext_def resolveStore_def useChildPropsSelector_def
  useSubscription_def useOverriddenContextValue_def useStateUpdates_def useRefs_def
  useActualChildProps_def memo_lookup_def areHookInputsEqual_def storeStateUpdatesReducer_def

lemmas effect_defs = captureWrapperProps_def checkForUpdates_def unsubscribeWrapper_def
  subscribeUpdates_def forceComponentUpdateDispatch_def commit_def subscribe_def

lemmas ex_defs = ex_mount_def ex_env_def ex_env_new_context_def ex_config_def ex_store_def
  ex_contextValue_def ex_Context_def

lemma ex_selector_simps:
  "ex_selector (JNum 1) p = Inr (JObj 101 [(''count'', JNum 1)])"
  "ex_selector (JNum 2) p = Inr (JObj 102 [(''count'', JNum 2)])"
  "ex_selector (JNum (- 1)) p = Inl (JObj 201 [(''message'', JStr ''bad state'')])"
  "ex_selector (JNum (- 2)) p = Inl (JObj 202 [(''message'', JStr ''bad state'')])"
  "ex_selector Null p = Inr Undefined"
  by (simp_all add: ex_selector_def)

lemmas eval_defs = hook_defs effect_defs js_defs ex_defs ex_selector_simps Let_def

lemma ex_subscribed_eval:
  "ex_subscribed =
     (None,
      Some \<lparr> cl_store = ex_store,
             cl_subscription = JObj 31 [(''store'', ex_store), (''parentSub'', JObj 5 [])],
             cl_childPropsSelector = ex_selector, cl_notifyNestedSubs = JFun 32,
             didUnsubscribe = False, lastThrownError = Null \<rparr>,
      \<lparr> memo_wrapperProps =
          Some ([JObj 20 [(''a'', JNum 1)]], (Undefined, Undefined, JObj 30 [(''a'', JNum 1)])),
        memo_childPropsSelector = Some ([ex_store], ex_selector),
        memo_subscription =
          Some ([ex_store, JBool False, ex_contextValue],
                (JObj 31 [(''store'', ex_store), (''parentSub'', JObj 5 [])], JFun 32)),
        memo_overriddenContextValue =
          Some ([JBool False, ex_contextValue,
                 JObj 31 [(''store'', ex_store), (''parentSub'', JObj 5 [])]],
                JObj 33 [(''store'', ex_store),
                         (''subscription'',
                          JObj 31 [(''store'', ex_store), (''parentSub'', JObj 5 [])])]),
        memo_actualChildProps =
          Some ([ex_store, Null, JObj 30 [(''a'', JNum 1)]], JObj 101 [(''count'', JNum 1)]),
        stateUpdates = (Null, 0), updateQueue = [], mounted = True,
        lastChildProps = JObj 101 [(''count'', JNum 1)],
        lastWrapperProps = JObj 30 [(''a'', JNum 1)],
        childPropsFromStoreUpdate = Undefined, renderIsScheduled = False,
        trace =
          [GetState ex_store, Select (JNum 1) (JObj 30 [(''a'', JNum 1)]),
           SetOnStateChange (JObj 31 [(''store'', ex_store), (''parentSub'', JObj 5 [])]) True,
           TrySubscribe (JObj 31 [(''store'', ex_store), (''parentSub'', JObj 5 [])]),
           GetState ex_store, Select (JNum 1) (JObj 30 [(''a'', JNum 1)]), Call (JFun 32)],
        next_addr = 34 \<rparr>)"
  unfolding ex_subscribed_def
  by (simp add: hook_defs effect_defs js_defs ex_defs ex_selector_simps Let_def)

lemma ex_closure_eval:
  "ex_closure =
     \<lparr> cl_store = ex_store,
       cl_subscription = JObj 31 [(''store'', ex_store), (''parentSub'', JObj 5 [])],
       cl_childPropsSelector = ex_selector, cl_notifyNestedSubs = JFun 32,
       didUnsubscribe = False, lastThrownError = Null \<rparr>"
  by (simp add: ex_closure_def ex_subscribed_eval)

lemma ex_inst_eval:
  "ex_inst =
      \<lparr> memo_wrapperProps =
          Some ([JObj 20 [(''a'', JNum 1)]], (Undefined, Undefined, JObj 30 [(''a'', JNum 1)])),
        memo_childPropsSelector = Some ([ex_store], ex_selector),
        memo_subscription =
          Some ([ex_store, JBool False, ex_contextValue],
                (JObj 31 [(''store'', ex_store), (''parentSub'', JObj 5 [])], JFun 32)),
        memo_overriddenContextValue =
          Some ([JBool False, ex_contextValue,
                 JObj 31 [(''store'', ex_store), (''parentSub'', JObj 5 [])]],
                JObj 33 [(''store'', ex_store),
                         (''subscription'',
                          JObj 31 [(''store'', ex_store), (''parentSub'', JObj 5 [])])]),
        memo_actualChildProps =
          Some ([ex_store, Null, JObj 30 [(''a'', JNum 1)]], JObj 101 [(''count'', JNum 1)]),
        stateUpdates = (Null, 0), updateQueue = [], mounted = True,
        lastChildProps = JObj 101 [(''count'', JNum 1)],
        lastWrapperProps = JObj 30 [(''a'', JNum 1)],
        childPropsFromStoreUpdate = Undefined, renderIsScheduled = False,
        trace =
          [GetState ex_store, Select (JNum 1) (JObj 30 [(''a'', JNum 1)]),
           SetOnStateChange (JObj 31 [(''store'', ex_store), (''parentSub'', JObj 5 [])]) True,
           TrySubscribe (JObj 31 [(''store'', ex_store), (''parentSub'', JObj 5 [])]),
           GetState ex_store, Select (JNum 1) (JObj 30 [(''a'', JNum 1)]), Call (JFun 32)],
        next_addr = 34 \<rparr>"
  by (simp add: ex_inst_def ex_subscribed_eval)

lemma ex_getState: "call_getState (ex_env st) ex_store = Inr st"
  by (simp add: js_defs ex_env_def ex_store_def)

lemma ex_first_error_eval:
  "ex_first_error =
     (None, ex_closure\<lparr> lastThrownError := JObj 201 [(''message'', JStr ''bad state'')] \<rparr>,
      ex_inst\<lparr> lastChildProps := Undefined, childPropsFromStoreUpdate := Undefined,
               renderIsScheduled := True,
               updateQueue :=
                 [\<lparr> action_type = ''STORE_UPDATED'',
                    payload = JObj 34 [(''error'', JObj 201 [(''message'', JStr ''bad state'')])] \<rparr>],
               trace := trace ex_inst @
                 [GetState ex_store, Select (JNum (- 1)) (JObj 30 [(''a'', JNum 1)])],
               next_addr := 35 \<rparr>)"
  by (simp add: ex_first_error_def checkForUpdates_def forceComponentUpdateDispatch_def
        ex_closure_eval ex_inst_eval ex_getState ex_selector_simps js_strict_eq_def Let_def)

lemma ex_second_error_eval:
  "ex_second_error =
     (None,
      (fst (snd ex_first_error))\<lparr> lastThrownError := JObj 202 [(''message'', JStr ''bad state'')] \<rparr>,
      (snd (snd ex_first_error))\<lparr> trace := trace (snd (snd ex_first_error)) @
          [GetState ex_store, Select (JNum (- 2)) (JObj 30 [(''a'', JNum 1)])] \<rparr>)"
  by (simp add: ex_second_error_def ex_first_error_eval checkForUpdates_def
        ex_closure_eval ex_inst_eval ex_getState ex_selector_simps js_strict_eq_def Let_def)

lemma ex_render_after_errors_eval:
  "ex_render_after_errors = Threw (Thrown (JObj 201 [(''message'', JStr ''bad state'')])) []"
  by (simp add: ex_render_after_errors_def ex_second_error_eval ex_first_error_eval
        ex_closure_eval ex_inst_eval eval_defs)

lemma ex_changed_eval:
  "ex_changed =
     (None, ex_closure,
      ex_inst\<lparr> lastChildProps := JObj 102 [(''count'', JNum 2)],
               childPropsFromStoreUpdate := JObj 102 [(''count'', JNum 2)],
               renderIsScheduled := True,
               updateQueue :=
                 [\<lparr> action_type = ''STORE_UPDATED'',
                    payload = JObj 34 [(''error'', Undefined)] \<rparr>],
               trace := trace ex_inst @
                 [GetState ex_store, Select (JNum 2) (JObj 30 [(''a'', JNum 1)])],
               next_addr := 35 \<rparr>)"
  by (simp add: ex_changed_def checkForUpdates_def forceComponentUpdateDispatch_def
        ex_closure_eval ex_inst_eval ex_getState ex_selector_simps js_strict_eq_def Let_def)

lemma ex_render_after_change_eval:
  "\<not> is_Threw ex_render_after_change"
  "r_actualChildProps (the_output ex_render_after_change) = JObj 102 [(''count'', JNum 2)]"
  "r_wrapperProps (the_output ex_render_after_change) = JObj 30 [(''a'', JNum 1)]"
  "r_store (the_output ex_render_after_change) = ex_store"
  "childPropsFromStoreUpdate (the_hooks ex_render_after_change) = JObj 102 [(''count'', JNum 2)]"
  "lastWrapperProps (the_hooks ex_render_after_change) = JObj 30 [(''a'', JNum 1)]"
  "stateUpdates (the_hooks ex_render_after_change) = (JObj 34 [(''error'', Undefined)], 1)"
  "trace (the_hooks ex_render_after_change) = trace (snd (snd ex_changed))"
  by (simp_all add: ex_render_after_change_def ex_changed_eval ex_inst_eval eval_defs)

lemma ex_unchanged_twice_eval:
  "ex_unchanged_twice =
     (None, ex_closure,
      (snd (snd ex_changed))\<lparr> trace := trace (snd (snd ex_changed)) @
         [GetState ex_store, Select (JNum 2) (JObj 30 [(''a'', JNum 1)]),
          GetState ex_store, Select (JNum 2) (JObj 30 [(''a'', JNum 1)])] \<rparr>)"
  by (simp add: ex_unchanged_twice_def ex_changed_eval checkForUpdates_def
        ex_closure_eval ex_inst_eval ex_getState ex_selector_simps js_strict_eq_def Let_def)

lemma ex_commit_after_unchanged_eval:
  "\<not> is_Threw ex_render_after_unchanged"
  "fst ex_commit_after_unchanged = None"
  "trace (snd ex_commit_after_unchanged) =
     trace ex_inst @
       [GetState ex_store, Select (JNum 2) (JObj 30 [(''a'', JNum 1)]),
        GetState ex_store, Select (JNum 2) (JObj 30 [(''a'', JNum 1)]),
        GetState ex_store, Select (JNum 2) (JObj 30 [(''a'', JNum 1)]),
        Call (JFun 32)]"
  "r_actualChildProps (the_output ex_render_after_unchanged) = JObj 102 [(''count'', JNum 2)]"
  by (simp_all add: ex_commit_after_unchanged_def ex_render_after_unchanged_def
        ex_unchanged_twice_eval ex_changed_eval ex_inst_eval eval_defs)

lemma ex_pure_second_render_eval:
  "\<not> is_Threw ex_pure_second_render"
  "r_actualChildProps (the_output ex_pure_second_render) = JObj 101 [(''count'', JNum 1)]"
  "r_wrapperProps (the_output ex_pure_second_render) = JObj 30 [(''a'', JNum 1)]"
  "r_store (the_output ex_pure_second_render) = ex_store"
  "r_childPropsSelector (the_output ex_pure_second_render) = ex_selector"
  "childPropsFromStoreUpdate (the_hooks ex_pure_second_render) = Undefined"
  by (simp_all add: ex_pure_second_render_def eval_defs)

lemma ex_subscribed_undefined_eval:
  "fst ex_subscribed_undefined = None"
  "fst (snd ex_subscribed_undefined) =
      Some \<lparr> cl_store = ex_store,
             cl_subscription = JObj 31 [(''store'', ex_store), (''parentSub'', JObj 5 [])],
             cl_childPropsSelector = ex_selector, cl_notifyNestedSubs = JFun 32,
             didUnsubscribe = False, lastThrownError = Null \<rparr>"
  "lastChildProps (snd (snd ex_subscribed_undefined)) = Undefined"
  "lastWrapperProps (snd (snd ex_subscribed_undefined)) = JObj 30 [(''a'', JNum 1)]"
  "renderIsScheduled (snd (snd ex_subscribed_undefined)) = False"
  "updateQueue (snd (snd ex_subscribed_undefined)) = []"
  "childPropsFromStoreUpdate (snd (snd ex_subscribed_undefined)) = Undefined"
  "r_actualChildProps (the_output (ex_mount True True Null)) = Undefined"
  by (simp_all add: ex_subscribed_undefined_def eval_defs)


lemma ex_no_provider_eval:
  "ConnectFunction ex_env_production (ex_config True True) 20 [(''a'', JNum 1)] (init_inst 30) =
     Threw TypeError []"
  "ConnectFunction ex_env_no_provider (ex_config True True) 20 [(''a'', JNum 1)] (init_inst 30) =
     Threw (NewError (storeNotFoundMessage ''Connect(App)'')) []"
  "ambientContextValue ex_env_production (ex_config True True) 20 [(''a'', JNum 1)] (init_inst 30) = Null"
  "ambientContextValue ex_env_no_provider (ex_config True True) 20 [(''a'', JNum 1)] (init_inst 30) = Null"
  by (simp_all add: ex_env_production_def ex_env_no_provider_def ambientContextValue_def eval_defs)

lemma Rendered_collapse: "\<not> is_Threw r \<Longrightarrow> r = Rendered (the_output r) (the_hooks r)"
  by (cases r) simp_all

section \<open>The stages of a render\<close>

lemma memo_lookup_None: "memo_lookup None deps = None"
  by (simp add: memo_lookup_def)

lemma memo_lookup_SomeD:
  "memo_lookup cell deps = Some v \<Longrightarrow>
     \<exists>prevDeps. cell = Some (prevDeps, v) \<and> list_all2 js_same_value deps prevDeps"
  by (auto simp: memo_lookup_def areHookInputsEqual_def split: option.splits if_splits)

lemma js_same_value_refl: "js_same_value x x"
  by (cases x) simp_all




lemma useWrapperProps_frame:
  "useWrapperProps p i = (v, i1) \<Longrightarrow>
     i1 = i\<lparr> memo_wrapperProps := memo_wrapperProps i1, next_addr := next_addr i1 \<rparr>"
  by (auto simp: useWrapperProps_def Let_def split: option.splits)

lemma useChildPropsSelector_frame:
  "useChildPropsSelector cfg store i = Inr (sel, i2) \<Longrightarrow>
     i2 = i\<lparr> memo_childPropsSelector := memo_childPropsSelector i2 \<rparr>"
  by (auto simp: useChildPropsSelector_def split: option.splits sum.splits)

lemma useSubscription_frame:
  "useSubscription cfg store fp cv i = Inr (sn, i3) \<Longrightarrow>
     i3 = i\<lparr> memo_subscription := memo_subscription i3, next_addr := next_addr i3 \<rparr>"
  by (auto simp: useSubscription_def Let_def split: option.splits sum.splits if_splits)

lemma useOverriddenContextValue_frame:
  "useOverriddenContextValue fp cv sub i = (ocv, i4) \<Longrightarrow>
     i4 = i\<lparr> memo_overriddenContextValue := memo_overriddenContextValue i4,
            next_addr := next_addr i4 \<rparr>"
  by (auto simp: useOverriddenContextValue_def Let_def split: option.splits if_splits)

lemma useStateUpdates_frame:
  "useStateUpdates i = (prev, i5) \<Longrightarrow>
     i5 = i\<lparr> stateUpdates := stateUpdates i5, updateQueue := [] \<rparr> \<and> prev = fst (stateUpdates i5)"
  by (auto simp: useStateUpdates_def Let_def)

lemma useActualChildProps_frame:
  "useActualChildProps e cfg store sel prev wp i = (r, evs, i6) \<Longrightarrow>
     i6 = i\<lparr> memo_actualChildProps := memo_actualChildProps i6 \<rparr>"
  by (auto simp: useActualChildProps_def Let_def split: option.splits sum.splits if_splits)

text \<open>A render that returns has passed every stage, and each stage writes its own
  memo cell and the allocator only.\<close>

lemma ConnectFunction_stages:
  assumes "ConnectFunction e cfg pa pf i0 = Rendered out i'"
  obtains pc rf wp m1 n1 store fromProps sel m2 sub nf m3 n3 ocv m4 n4 st acp evs m6 where
    "useWrapperProps (JObj pa pf) (begin_render i0) =
       ((pc, rf, wp), (begin_render i0)\<lparr> memo_wrapperProps := m1, next_addr := n1 \<rparr>)"
    "resolveStore e cfg (JObj pa pf) (useContext e (chooseContext e cfg pc)) =
       Inr (store, fromProps)"
    "useChildPropsSelector cfg store
       ((begin_render i0)\<lparr> memo_wrapperProps := m1, next_addr := n1 \<rparr>) =
       Inr (sel, (begin_render i0)\<lparr> memo_wrapperProps := m1, next_addr := n1,
                                    memo_childPropsSelector := m2 \<rparr>)"
    "useSubscription cfg store fromProps (useContext e (chooseContext e cfg pc))
       ((begin_render i0)\<lparr> memo_wrapperProps := m1, next_addr := n1,
                             memo_childPropsSelector := m2 \<rparr>) =
       Inr ((sub, nf),
            (begin_render i0)\<lparr> memo_wrapperProps := m1, memo_childPropsSelector := m2,
                                 memo_subscription := m3, next_addr := n3 \<rparr>)"
    "useOverriddenContextValue fromProps (useContext e (chooseContext e cfg pc)) sub
       ((begin_render i0)\<lparr> memo_wrapperProps := m1, memo_childPropsSelector := m2,
                             memo_subscription := m3, next_addr := n3 \<rparr>) =
       (ocv, (begin_render i0)\<lparr> memo_wrapperProps := m1, memo_childPropsSelector := m2,
                                  memo_subscription := m3,
                                  memo_overriddenContextValue := m4, next_addr := n4 \<rparr>)"
    "st = foldl storeStateUpdatesReducer (stateUpdates (begin_render i0))
            (updateQueue (begin_render i0))"
    "\<not> (js_truthy (fst st) \<and> js_truthy (js_prop (fst st) ''error''))"
    "useActualChildProps e cfg store sel (fst st) wp
       (useRefs wp
          ((begin_render i0)\<lparr> memo_wrapperProps := m1, memo_childPropsSelector := m2,
                                memo_subscription := m3, memo_overriddenContextValue := m4,
                                next_addr := n4, stateUpdates := st, updateQueue := [] \<rparr>)) =
       (Inr acp, evs,
        (useRefs wp
          ((begin_render i0)\<lparr> memo_wrapperProps := m1, memo_childPropsSelector := m2,
                                memo_subscription := m3, memo_overriddenContextValue := m4,
                                next_addr := n4, stateUpdates := st, updateQueue := [] \<rparr>))
          \<lparr> memo_actualChildProps := m6 \<rparr>)"
    "out = \<lparr> r_ContextToUse = chooseContext e cfg pc,
             r_contextValue = useContext e (chooseContext e cfg pc),
             r_store = store, r_didStoreComeFromProps = fromProps,
             r_childPropsSelector = sel, r_subscription = sub, r_notifyNestedSubs = nf,
             r_overriddenContextValue = ocv, r_wrapperProps = wp,
             r_reactReduxForwardedRef = rf, r_actualChildProps = acp,
             r_provider = (if shouldHandleStateChanges cfg
                           then Some (chooseContext e cfg pc, ocv) else None) \<rparr>"
    "i' = (useRefs wp
          ((begin_render i0)\<lparr> memo_wrapperProps := m1, memo_childPropsSelector := m2,
                                memo_subscription := m3, memo_overriddenContextValue := m4,
                                next_addr := n4, stateUpdates := st, updateQueue := [] \<rparr>))
          \<lparr> memo_actualChildProps := m6, mounted := True,
             trace := trace (begin_render i0) @ evs \<rparr>"
proof -
  from assms obtain pc rf wp i1 store fromProps sel i2 sub nf i3 ocv i4 prev i5 acp evs i6 where
    s1: "useWrapperProps (JObj pa pf) (begin_render i0) = ((pc, rf, wp), i1)" and
    s2: "resolveStore e cfg (JObj pa pf) (useContext e (chooseContext e cfg pc)) =
           Inr (store, fromProps)" and
    s3: "useChildPropsSelector cfg store i1 = Inr (sel, i2)" and
    s4: "useSubscription cfg store fromProps (useContext e (chooseContext e cfg pc)) i2 =
           Inr ((sub, nf), i3)" and
    s5: "useOverriddenContextValue fromProps (useContext e (chooseContext e cfg pc)) sub i3 =
           (ocv, i4)" and
    s6: "useStateUpdates i4 = (prev, i5)" and
    s7: "\<not> (js_truthy prev \<and> js_truthy (js_prop prev ''error''))" and
    s8: "useActualChildProps e cfg store sel prev wp (useRefs wp i5) = (Inr acp, evs, i6)" and
    out: "out = \<lparr> r_ContextToUse = chooseContext e cfg pc,
             r_contextValue = useContext e (chooseContext e cfg pc),
             r_store = store, r_didStoreComeFromProps = fromProps,
             r_childPropsSelector = sel, r_subscription = sub, r_notifyNestedSubs = nf,
             r_overriddenContextValue = ocv, r_wrapperProps = wp,
             r_reactReduxForwardedRef = rf, r_actualChildProps = acp,
             r_provider = (if shouldHandleStateChanges cfg
                           then Some (chooseContext e cfg pc, ocv) else None) \<rparr>" and
    i': "i' = i6\<lparr> mounted := True, trace := trace i6 @ evs \<rparr>"
    unfolding ConnectFunction_def Let_def
    by (auto split: prod.splits sum.splits if_splits)
  define b where "b = begin_render i0"
  note f1 = useWrapperProps_frame[OF s1, folded b_def]
  note f2 = useChildPropsSelector_frame[OF s3]
  note f3 = useSubscription_frame[OF s4]
  note f4 = useOverriddenContextValue_frame[OF s5]
  note f5 = useStateUpdates_frame[OF s6]
  note f6 = useActualChildProps_frame[OF s8]
  have e1: "i1 = b\<lparr> memo_wrapperProps := memo_wrapperProps i1, next_addr := next_addr i1 \<rparr>"
    by (rule f1)
  have e2: "i2 = b\<lparr> memo_wrapperProps := memo_wrapperProps i1, next_addr := next_addr i1,
                     memo_childPropsSelector := memo_childPropsSelector i2 \<rparr>"
    by (subst f2, subst e1) simp
  have e3: "i3 = b\<lparr> memo_wrapperProps := memo_wrapperProps i1,
                     memo_childPropsSelector := memo_childPropsSelector i2,
                     memo_subscription := memo_subscription i3, next_addr := next_addr i3 \<rparr>"
    by (subst f3, subst e2) simp
  have e4: "i4 = b\<lparr> memo_wrapperProps := memo_wrapperProps i1,
                     memo_childPropsSelector := memo_childPropsSelector i2,
                     memo_subscription := memo_subscription i3,
                     memo_overriddenContextValue := memo_overriddenContextValue i4,
                     next_addr := next_addr i4 \<rparr>"
    by (subst f4, subst e3) simp
  have st: "stateUpdates i5 = foldl storeStateUpdatesReducer (stateUpdates b) (updateQueue b)"
    using s6 by (subst (asm) e4) (auto simp: useStateUpdates_def Let_def)
  have e5: "i5 = b\<lparr> memo_wrapperProps := memo_wrapperProps i1,
                     memo_childPropsSelector := memo_childPropsSelector i2,
                     memo_subscription := memo_subscription i3,
                     memo_overriddenContextValue := memo_overriddenContextValue i4,
                     next_addr := next_addr i4, stateUpdates := stateUpdates i5,
                     updateQueue := [] \<rparr>"
    by (subst conjunct1[OF f5], subst e4) simp
  have prev: "prev = fst (stateUpdates i5)" using f5 by simp
  have tr: "trace i6 = trace b"
    by (subst f6, subst e5) (simp add: useRefs_def)
  show thesis
  proof (rule that[where ?m1.0="memo_wrapperProps i1" and ?n1.0="next_addr i1"
        and ?m2.0="memo_childPropsSelector i2" and ?m3.0="memo_subscription i3"
        and ?n3.0="next_addr i3" and ?m4.0="memo_overriddenContextValue i4"
        and ?n4.0="next_addr i4" and st="stateUpdates i5" and ?m6.0="memo_actualChildProps i6"])
    show "useWrapperProps (JObj pa pf) (begin_render i0) =
       ((pc, rf, wp), (begin_render i0)\<lparr> memo_wrapperProps := memo_wrapperProps i1,
          next_addr := next_addr i1 \<rparr>)"
      using s1 e1 by (simp add: b_def)
  qed (use s2 s3 s4 s5 s7 s8 out i' e1 e2 e3 e4 e5 st prev tr f6 in \<open>simp_all add: b_def\<close>)
qed

text \<open>What a stage can throw, and what it can cause.\<close>

lemma call_getState_Inl: "call_getState e s = Inl x \<Longrightarrow> x = TypeError"
  by (auto simp: call_getState_def js_get_def split: if_splits jsval.splits)

lemma stage_errors:
  "useChildPropsSelector cfg store i = Inl x \<Longrightarrow> x = TypeError"
  "useSubscription cfg store fp cv i = Inl x \<Longrightarrow> x = TypeError"
  "useActualChildProps e cfg store sel prev wp i = (Inl x, evs, i') \<Longrightarrow>
     x = TypeError \<or> (\<exists>v. x = Thrown v)"
  by (auto simp: useChildPropsSelector_def useSubscription_def useActualChildProps_def
        js_get_def Let_def dest: call_getState_Inl
      split: option.splits sum.splits if_splits)

lemma useActualChildProps_events:
  "useActualChildProps e cfg store sel prev wp i = (r, evs, i') \<Longrightarrow>
     evs = [] \<or> (\<exists>s. evs = [GetState store, Select s wp])"
  by (auto simp: useActualChildProps_def Let_def split: option.splits sum.splits if_splits)

lemma stages_keep_queue:
  "useWrapperProps p i = (v, i1) \<Longrightarrow>
     stateUpdates i1 = stateUpdates i \<and> updateQueue i1 = updateQueue i"
  "useChildPropsSelector cfg store i = Inr (sel, i2) \<Longrightarrow>
     stateUpdates i2 = stateUpdates i \<and> updateQueue i2 = updateQueue i"
  "useSubscription cfg store fp cv i = Inr (sn, i3) \<Longrightarrow>
     stateUpdates i3 = stateUpdates i \<and> updateQueue i3 = updateQueue i"
  "useOverriddenContextValue fp cv sub i = (ocv, i4) \<Longrightarrow>
     stateUpdates i4 = stateUpdates i \<and> updateQueue i4 = updateQueue i"
  by (auto simp: useWrapperProps_def useChildPropsSelector_def useSubscription_def
        useOverriddenContextValue_def Let_def
      split: option.splits sum.splits if_splits)

lemma foldl_reducer_last:
  "q \<noteq> [] \<Longrightarrow> fst (foldl storeStateUpdatesReducer st q) = payload (last q)"
  by (induction q rule: rev_induct)
     (simp_all add: storeStateUpdatesReducer_def split: prod.splits)





section \<open>Change detection\<close>

text \<open>
  One pass whose derivation returns a value that is \<^verbatim>\<open>===\<close> to the recorded last merged
  props: the callback returns normally, the instance is as before but for the events
  of the pass, and these are the read of the store, the call of the derivation
  function and, exactly when no render is scheduled, one call of
  \<^verbatim>\<open>notifyNestedSubs\<close>.
\<close>

lemma unchanged_pass:
  assumes "\<not> didUnsubscribe c"
    and "call_getState e (cl_store c) = Inr s"
    and "cl_childPropsSelector c s (lastWrapperProps i) = Inr v"
    and "js_strict_eq v (lastChildProps i)"
    and "cl_notifyNestedSubs c = JFun f"
  shows "checkForUpdates e c i =
     (None, c\<lparr> lastThrownError := Null \<rparr>,
      i\<lparr> trace := trace i @ [GetState (cl_store c), Select s (lastWrapperProps i)] @
                     (if renderIsScheduled i then [] else [Call (JFun f)]) \<rparr>)"
  using assms by (simp add: checkForUpdates_def js_call_def Let_def)

text \<open>A render of a mounted instance writes none of the four refs, and its only
  events are the read of the store and the call of the derivation function when it
  recomputes the merged props.\<close>

lemma render_keeps_refs:
  assumes "ConnectFunction e cfg pa pf i = Rendered out i'" and "mounted i"
  shows "childPropsFromStoreUpdate i' = childPropsFromStoreUpdate i \<and>
         renderIsScheduled i' = renderIsScheduled i \<and>
         lastWrapperProps i' = lastWrapperProps i \<and>
         lastChildProps i' = lastChildProps i \<and>
         (trace i' = trace i \<or>
          (\<exists>s. trace i' = trace i @ [GetState (r_store out), Select s (r_wrapperProps out)]))"
proof -
  from assms(1) obtain pc rf wp m1 n1 store fromProps sel m2 sub nf m3 n3 ocv m4 n4 st acp evs m6
    where s8: "useActualChildProps e cfg store sel (fst st) wp
       (useRefs wp
          ((begin_render i)\<lparr> memo_wrapperProps := m1, memo_childPropsSelector := m2,
                                memo_subscription := m3, memo_overriddenContextValue := m4,
                                next_addr := n4, stateUpdates := st, updateQueue := [] \<rparr>)) =
       (Inr acp, evs,
        (useRefs wp
          ((begin_render i)\<lparr> memo_wrapperProps := m1, memo_childPropsSelector := m2,
                                memo_subscription := m3, memo_overriddenContextValue := m4,
                                next_addr := n4, stateUpdates := st, updateQueue := [] \<rparr>))
          \<lparr> memo_actualChildProps := m6 \<rparr>)"
     and out: "r_store out = store" "r_wrapperProps out = wp"
     and i': "i' = (useRefs wp
          ((begin_render i)\<lparr> memo_wrapperProps := m1, memo_childPropsSelector := m2,
                                memo_subscription := m3, memo_overriddenContextValue := m4,
                                next_addr := n4, stateUpdates := st, updateQueue := [] \<rparr>))
          \<lparr> memo_actualChildProps := m6, mounted := True,
             trace := trace (begin_render i) @ evs \<rparr>"
    by (elim ConnectFunction_stages) simp
  from useActualChildProps_events[OF s8]
  have "evs = [] \<or> (\<exists>s. evs = [GetState store, Select s wp])" .
  then show ?thesis
    using assms(2) by (auto simp: i' out useRefs_def begin_render_def)
qed

text \<open>
  Claim C1, as amended. Store-change notifications reach a subscribed instance that
  has not been torn down, one after another, and for each of them the derivation
  function returns a value that is \<^verbatim>\<open>===\<close> to the recorded last merged props. Then
  every callback returns normally; the update queue and the four refs are as before,
  so no re-render is requested and nothing is stored as pending; and the events of
  every pass are the read of the store, the call of the derivation function and,
  exactly when no render is scheduled, one call of \<^verbatim>\<open>notifyNestedSubs\<close>. While a
  render is scheduled none of these passes cascades: the post-commit step, run on the
  refs as the passes leave them (the render in between does not write them), calls
  \<^verbatim>\<open>notifyNestedSubs\<close> once when the pending store-derived props are truthy and not at
  all otherwise, whatever the number of notifications.
\<close>

theorem unchanged_updates_and_their_cascade:
  assumes live: "\<not> didUnsubscribe c"
    and nns: "cl_notifyNestedSubs c = JFun f"
    and unchanged: "\<forall>e \<in> set es.
          call_getState e (cl_store c) = Inr (st e) \<and>
          cl_childPropsSelector c (st e) (lastWrapperProps i) = Inr (v e) \<and>
          js_strict_eq (v e) (lastChildProps i)"
  shows "notifications es c i =
           (None, (if es = [] then c else c\<lparr> lastThrownError := Null \<rparr>),
            i\<lparr> trace := trace i @
                 concat (map (\<lambda>e. [GetState (cl_store c), Select (st e) (lastWrapperProps i)] @
                                  (if renderIsScheduled i then [] else [Call (JFun f)])) es) \<rparr>) \<and>
         captureWrapperProps wrapperProps actualChildProps (cl_notifyNestedSubs c)
             (snd (snd (notifications es c i))) =
           (None,
            (snd (snd (notifications es c i)))
              \<lparr> lastWrapperProps := wrapperProps, lastChildProps := actualChildProps,
                renderIsScheduled := False,
                childPropsFromStoreUpdate :=
                  (if js_truthy (childPropsFromStoreUpdate i) then Null
                   else childPropsFromStoreUpdate i),
                trace := trace (snd (snd (notifications es c i))) @
                  (if js_truthy (childPropsFromStoreUpdate i) then [Call (JFun f)] else []) \<rparr>)"
proof -
  have run: "notifications es c i =
           (None, (if es = [] then c else c\<lparr> lastThrownError := Null \<rparr>),
            i\<lparr> trace := trace i @
                 concat (map (\<lambda>e. [GetState (cl_store c), Select (st e) (lastWrapperProps i)] @
                                  (if renderIsScheduled i then [] else [Call (JFun f)])) es) \<rparr>)"
    using live nns unchanged
  proof (induction es arbitrary: c i)
    case Nil
    then show ?case by simp
  next
    case (Cons e es)
    let ?c = "c\<lparr> lastThrownError := Null \<rparr>"
    let ?i = "i\<lparr> trace := trace i @ [GetState (cl_store c), Select (st e) (lastWrapperProps i)] @
                     (if renderIsScheduled i then [] else [Call (JFun f)]) \<rparr>"
    have pass: "checkForUpdates e c i = (None, ?c, ?i)"
      using Cons.prems by (intro unchanged_pass[where s="st e" and v="v e"]) simp_all
    have rest: "notifications es ?c ?i =
           (None, (if es = [] then ?c else ?c\<lparr> lastThrownError := Null \<rparr>),
            ?i\<lparr> trace := trace ?i @
                 concat (map (\<lambda>e. [GetState (cl_store ?c), Select (st e) (lastWrapperProps ?i)] @
                                  (if renderIsScheduled ?i then [] else [Call (JFun f)])) es) \<rparr>)"
      using Cons.prems by (intro Cons.IH) simp_all
    have "notifications (e # es) c i = notifications es ?c ?i"
      by (simp only: notifications.simps pass prod.case option.case)
    also note rest
    finally show ?case
      by simp
  qed
  show ?thesis
    unfolding run by (simp add: run captureWrapperProps_def js_call_def nns Let_def)
qed

text \<open>The mounted instance of the concrete application receives two notifications
  while the state of the store is still 1 and no render is scheduled: each pass
  cascades.\<close>

theorem unchanged_updates_and_their_cascade_witness:
  "\<not> didUnsubscribe ex_closure \<and>
   cl_notifyNestedSubs ex_closure = JFun 32 \<and>
   call_getState (ex_env (JNum 1)) (cl_store ex_closure) = Inr (JNum 1) \<and>
   cl_childPropsSelector ex_closure (JNum 1) (lastWrapperProps ex_inst) =
     Inr (JObj 101 [(''count'', JNum 1)]) \<and>
   js_strict_eq (JObj 101 [(''count'', JNum 1)]) (lastChildProps ex_inst) \<and>
   \<not> renderIsScheduled ex_inst \<and>
   notifications [ex_env (JNum 1), ex_env (JNum 1)] ex_closure ex_inst =
     (None, ex_closure\<lparr> lastThrownError := Null \<rparr>,
      ex_inst\<lparr> trace := trace ex_inst @
         [GetState ex_store, Select (JNum 1) (JObj 30 [(''a'', JNum 1)]), Call (JFun 32),
          GetState ex_store, Select (JNum 1) (JObj 30 [(''a'', JNum 1)]), Call (JFun 32)] \<rparr>)"
proof -
  have h: "\<not> didUnsubscribe ex_closure" "cl_notifyNestedSubs ex_closure = JFun 32"
    by (simp_all add: ex_closure_eval)
  have u: "call_getState (ex_env (JNum 1)) (cl_store ex_closure) = Inr (JNum 1)"
    "cl_childPropsSelector ex_closure (JNum 1) (lastWrapperProps ex_inst) =
       Inr (JObj 101 [(''count'', JNum 1)])"
    "js_strict_eq (JObj 101 [(''count'', JNum 1)]) (lastChildProps ex_inst)"
    "\<not> renderIsScheduled ex_inst"
    by (simp_all add: ex_closure_eval ex_inst_eval ex_getState ex_selector_simps js_strict_eq_def)
  have b: "\<forall>e \<in> set [ex_env (JNum 1), ex_env (JNum 1)].
          call_getState e (cl_store ex_closure) = Inr ((\<lambda>e. JNum 1) e) \<and>
          cl_childPropsSelector ex_closure ((\<lambda>e. JNum 1) e) (lastWrapperProps ex_inst) =
            Inr ((\<lambda>e. JObj 101 [(''count'', JNum 1)]) e) \<and>
          js_strict_eq ((\<lambda>e. JObj 101 [(''count'', JNum 1)]) e) (lastChildProps ex_inst)"
    using u by simp
  show ?thesis
    using h u conjunct1[OF unchanged_updates_and_their_cascade[OF h b]]
    by (simp add: ex_closure_eval ex_inst_eval)
qed

text \<open>
  The claim as stated fails: the store has changed to the state 2 and the render that
  this pass requested is scheduled when two more notifications arrive. The derivation
  function returns the recorded props 102 for both, so both are unchanged updates;
  neither pass calls \<^verbatim>\<open>notifyNestedSubs\<close>, and the only cascade that follows is the
  one of the post-commit step of the render: one cascade, not one for each of the two
  updates.
\<close>

theorem unchanged_updates_share_one_cascade:
  "renderIsScheduled (snd (snd ex_changed)) \<and>
   call_getState (ex_env (JNum 2)) (cl_store (fst (snd ex_changed))) = Inr (JNum 2) \<and>
   cl_childPropsSelector (fst (snd ex_changed)) (JNum 2)
       (lastWrapperProps (snd (snd ex_changed))) =
     Inr (JObj 102 [(''count'', JNum 2)]) \<and>
   js_strict_eq (JObj 102 [(''count'', JNum 2)]) (lastChildProps (snd (snd ex_changed))) \<and>
   ex_unchanged_twice =
     (None, fst (snd ex_changed),
      (snd (snd ex_changed))\<lparr> trace := trace (snd (snd ex_changed)) @
         [GetState ex_store, Select (JNum 2) (JObj 30 [(''a'', JNum 1)]),
          GetState ex_store, Select (JNum 2) (JObj 30 [(''a'', JNum 1)])] \<rparr>) \<and>
   \<not> is_Threw ex_render_after_unchanged \<and>
   fst ex_commit_after_unchanged = None \<and>
   trace (snd ex_commit_after_unchanged) =
     trace (snd (snd ex_changed)) @
       [GetState ex_store, Select (JNum 2) (JObj 30 [(''a'', JNum 1)]),
        GetState ex_store, Select (JNum 2) (JObj 30 [(''a'', JNum 1)]),
        Call (JFun 32)]"
  by (simp add: ex_unchanged_twice_eval ex_commit_after_unchanged_eval ex_changed_eval
        ex_closure_eval ex_inst_eval ex_getState ex_selector_simps js_strict_eq_def)

text \<open>
  A pass whose derivation succeeds with a result that is not \<^verbatim>\<open>===\<close> to the last
  merged props records the result in \<^verbatim>\<open>lastChildProps\<close> and as pending, marks a
  render as scheduled and queues one action whose payload carries no error; it calls
  no \<^verbatim>\<open>notifyNestedSubs\<close>. A pass whose derivation throws does the same with
  \<^verbatim>\<open>undefined\<close> as the result and the thrown value in the payload, provided that
  \<^verbatim>\<open>lastChildProps\<close> does not hold \<^verbatim>\<open>undefined\<close>. The post-commit step records the
  rendered props, clears the flag, and cascades exactly when the pending value is
  truthy, which it then clears.
\<close>

lemma changed_output_requests_one_render:
  assumes "\<not> didUnsubscribe c"
    and "call_getState e (cl_store c) = Inr s"
    and "cl_childPropsSelector c s (lastWrapperProps i) = Inr v"
    and "\<not> js_strict_eq v (lastChildProps i)"
  shows "checkForUpdates e c i =
     (None, c\<lparr> lastThrownError := Null \<rparr>,
      i\<lparr> lastChildProps := v, childPropsFromStoreUpdate := v, renderIsScheduled := True,
         updateQueue := updateQueue i @
           [\<lparr> action_type = ''STORE_UPDATED'',
              payload = JObj (next_addr i) [(''error'', Undefined)] \<rparr>],
         trace := trace i @ [GetState (cl_store c), Select s (lastWrapperProps i)],
         next_addr := Suc (next_addr i) \<rparr>)"
  using assms by (simp add: checkForUpdates_def forceComponentUpdateDispatch_def Let_def)

lemma thrown_error_requests_one_render:
  assumes "\<not> didUnsubscribe c"
    and "call_getState e (cl_store c) = Inr s"
    and "cl_childPropsSelector c s (lastWrapperProps i) = Inl x"
    and "lastChildProps i \<noteq> Undefined"
  shows "checkForUpdates e c i =
     (None, c\<lparr> lastThrownError := (if js_truthy x then x else Null) \<rparr>,
      i\<lparr> lastChildProps := Undefined, childPropsFromStoreUpdate := Undefined,
         renderIsScheduled := True,
         updateQueue := updateQueue i @
           [\<lparr> action_type = ''STORE_UPDATED'',
              payload = JObj (next_addr i) [(''error'', x)] \<rparr>],
         trace := trace i @ [GetState (cl_store c), Select s (lastWrapperProps i)],
         next_addr := Suc (next_addr i) \<rparr>)"
  using assms
  by (cases "lastChildProps i")
     (simp_all add: checkForUpdates_def forceComponentUpdateDispatch_def js_strict_eq_def Let_def)

lemma post_commit_step:
  "captureWrapperProps wrapperProps actualChildProps (JFun f) i =
     (None,
      i\<lparr> lastWrapperProps := wrapperProps, lastChildProps := actualChildProps,
         renderIsScheduled := False,
         childPropsFromStoreUpdate :=
           (if js_truthy (childPropsFromStoreUpdate i) then Null
            else childPropsFromStoreUpdate i),
         trace := trace i @
           (if js_truthy (childPropsFromStoreUpdate i) then [Call (JFun f)] else []) \<rparr>)"
  by (simp add: captureWrapperProps_def js_call_def Let_def)

text \<open>
  Claim C2. The claim holds on the two paths above. It fails for a pass whose
  derivation throws while \<^verbatim>\<open>lastChildProps\<close> holds \<^verbatim>\<open>undefined\<close>: the variable
  \<^verbatim>\<open>newChildProps\<close> is still \<^verbatim>\<open>undefined\<close> after the \<^verbatim>\<open>catch\<close>, the test of line 104
  finds it \<^verbatim>\<open>===\<close> to \<^verbatim>\<open>lastChildProps.current\<close>, and the pass takes the branch of an
  unchanged output. In the concrete application the derivation function returned
  \<^verbatim>\<open>undefined\<close> at the first render; when it then throws on the state -1, the pass
  queues no action, does not mark a render as scheduled, stores nothing as pending,
  and calls \<^verbatim>\<open>notifyNestedSubs\<close> at once.
\<close>

theorem error_on_undefined_props_not_rendered:
  "r_actualChildProps (the_output (ex_mount True True Null)) = Undefined \<and>
   lastChildProps (snd (snd ex_subscribed_undefined)) = Undefined \<and>
   \<not> renderIsScheduled (snd (snd ex_subscribed_undefined)) \<and>
   ex_selector (JNum (- 1)) (lastWrapperProps (snd (snd ex_subscribed_undefined))) =
     Inl (JObj 201 [(''message'', JStr ''bad state'')]) \<and>
   fst ex_error_on_undefined = None \<and>
   updateQueue (snd (snd ex_error_on_undefined)) = [] \<and>
   \<not> renderIsScheduled (snd (snd ex_error_on_undefined)) \<and>
   childPropsFromStoreUpdate (snd (snd ex_error_on_undefined)) = Undefined \<and>
   trace (snd (snd ex_error_on_undefined)) =
     trace (snd (snd ex_subscribed_undefined)) @
     [GetState ex_store, Select (JNum (- 1)) (JObj 30 [(''a'', JNum 1)]), Call (JFun 32)]"
  by (simp add: ex_error_on_undefined_def ex_subscribed_undefined_eval checkForUpdates_def
        ex_getState ex_selector_simps js_strict_eq_def js_call_def Let_def)

text \<open>
  When the last queued action carries a truthy error, the next render of the mounted
  instance cannot return: it throws that error before the merged props are computed
  (without any event), unless the resolution of the store throws first.
\<close>

lemma render_throws_recorded_error:
  assumes "mounted i" and "updateQueue i \<noteq> []"
    and "payload (last (updateQueue i)) = JObj a [(''error'', x)]"
    and "js_truthy x"
  shows "case ConnectFunction e cfg pa pf i of
           Rendered out i' \<Rightarrow> False
         | Threw y evs \<Rightarrow>
             evs = [] \<and>
             (y = Thrown x \<or> y = TypeError \<or>
              y = NewError (storeNotFoundMessage (displayName cfg)))"
proof -
  have prev: "fst (foldl storeStateUpdatesReducer (stateUpdates j) (updateQueue j)) =
      JObj a [(''error'', x)]"
    if "updateQueue j = updateQueue i" for j
    using that assms(2,3) by (simp add: foldl_reducer_last)
  have b: "begin_render i = i" using assms(1) by (simp add: begin_render_def)
  show ?thesis
    unfolding ConnectFunction_def Let_def b
    using assms(4)
    by (auto split: prod.splits sum.splits
          simp: useStateUpdates_def Let_def prev resolveStore_def js_get_def
          dest!: stages_keep_queue stage_errors(1,2))
qed

text \<open>
  Claim C4. The first throwing pass behaves as claimed: it returns normally and queues
  the error 201, which the next render throws. A second pass that throws a different
  error 202 before React has rendered finds \<^verbatim>\<open>lastChildProps\<close> set to \<^verbatim>\<open>undefined\<close> by
  the first one (line 113) and takes the branch of an unchanged output: the queue is
  as before, the error 202 reaches the closure variable \<^verbatim>\<open>lastThrownError\<close> only, and
  the next render throws the error 201, not the error of the latest pass.
\<close>

theorem second_error_lost_by_render:
  "ex_selector (JNum (- 1)) (lastWrapperProps ex_inst) =
     Inl (JObj 201 [(''message'', JStr ''bad state'')]) \<and>
   ex_selector (JNum (- 2)) (lastWrapperProps (snd (snd ex_first_error))) =
     Inl (JObj 202 [(''message'', JStr ''bad state'')]) \<and>
   fst ex_second_error = None \<and>
   updateQueue (snd (snd ex_second_error)) = updateQueue (snd (snd ex_first_error)) \<and>
   map payload (updateQueue (snd (snd ex_second_error))) =
     [JObj 34 [(''error'', JObj 201 [(''message'', JStr ''bad state'')])]] \<and>
   lastThrownError (fst (snd ex_second_error)) = JObj 202 [(''message'', JStr ''bad state'')] \<and>
   ex_render_after_errors = Threw (Thrown (JObj 201 [(''message'', JStr ''bad state'')])) []"
  by (simp add: ex_second_error_eval ex_first_error_eval ex_render_after_errors_eval
        ex_selector_simps)

section \<open>Teardown\<close>

text \<open>
  Claim C5. After the teardown \<^verbatim>\<open>unsubscribeWrapper\<close> of a subscription has run,
  whether it returned or threw, every later call of that subscription's
  \<^verbatim>\<open>checkForUpdates\<close>, in any world and on any state of the instance, returns at
  once: no exception, the closure and the instance unchanged, so no read of the
  store, no call of the derivation function, no cascade and no requested render.
\<close>

theorem stale_callback_is_inert:
  "checkForUpdates e (fst (snd (unsubscribeWrapper c i))) j =
     (None, fst (snd (unsubscribeWrapper c i)), j)"
  by (simp add: checkForUpdates_def unsubscribeWrapper_def Let_def)

text \<open>
  Claim C10. Take the most recent pass of a live subscription, from any earlier state
  of the closure and the instance. If the derivation function threw an error in it (an
  error object, or any other truthy value), the teardown marks the closure
  unsubscribed, calls \<^verbatim>\<open>tryUnsubscribe\<close>, clears the \<^verbatim>\<open>onStateChange\<close> slot and then
  throws that error. If the derivation succeeded in it, the teardown does the same
  three things and returns normally. (A thrown falsy value such as \<^verbatim>\<open>undefined\<close> is no
  error for line 99, and the teardown returns normally after it.)
\<close>

theorem teardown_throws_latest_error:
  assumes "\<not> didUnsubscribe c"
    and "call_getState e (cl_store c) = Inr s"
    and "is_node (cl_subscription c)"
  shows "(case cl_childPropsSelector c s (lastWrapperProps i) of
            Inl err \<Rightarrow>
              js_truthy err \<longrightarrow>
              unsubscribeWrapper (fst (snd (checkForUpdates e c i))) j =
                (Some (Thrown err),
                 (fst (snd (checkForUpdates e c i)))\<lparr> didUnsubscribe := True \<rparr>,
                 j\<lparr> trace := trace j @ [TryUnsubscribe (cl_subscription c),
                                        SetOnStateChange (cl_subscription c) False] \<rparr>)
          | Inr v \<Rightarrow>
              unsubscribeWrapper (fst (snd (checkForUpdates e c i))) j =
                (None,
                 (fst (snd (checkForUpdates e c i)))\<lparr> didUnsubscribe := True \<rparr>,
                 j\<lparr> trace := trace j @ [TryUnsubscribe (cl_subscription c),
                                        SetOnStateChange (cl_subscription c) False] \<rparr>))"
  using assms
  by (auto simp add: checkForUpdates_def unsubscribeWrapper_def js_call_def Let_def
           split: sum.splits prod.splits)

text \<open>The mounted instance of the concrete application is torn down after a pass
  that threw the error 201, and after a pass that succeeded.\<close>

theorem teardown_throws_latest_error_witness:
  "\<not> didUnsubscribe ex_closure \<and>
   call_getState (ex_env (JNum (- 1))) (cl_store ex_closure) = Inr (JNum (- 1)) \<and>
   is_node (cl_subscription ex_closure) \<and>
   cl_childPropsSelector ex_closure (JNum (- 1)) (lastWrapperProps ex_inst) =
     Inl (JObj 201 [(''message'', JStr ''bad state'')]) \<and>
   js_truthy (JObj 201 [(''message'', JStr ''bad state'')]) \<and>
   fst (unsubscribeWrapper (fst (snd ex_first_error)) (snd (snd ex_first_error))) =
     Some (Thrown (JObj 201 [(''message'', JStr ''bad state'')])) \<and>
   cl_childPropsSelector ex_closure (JNum 1) (lastWrapperProps ex_inst) =
     Inr (JObj 101 [(''count'', JNum 1)]) \<and>
   fst (unsubscribeWrapper (fst (snd (checkForUpdates (ex_env (JNum 1)) ex_closure ex_inst)))
          ex_inst) = None"
proof -
  have h: "\<not> didUnsubscribe ex_closure"
    "is_node (cl_subscription ex_closure)"
    by (simp_all add: ex_closure_eval)
  have g: "call_getState (ex_env st) (cl_store ex_closure) = Inr st" for st
    by (simp add: ex_closure_eval ex_getState)
  have s1: "cl_childPropsSelector ex_closure (JNum (- 1)) (lastWrapperProps ex_inst) =
      Inl (JObj 201 [(''message'', JStr ''bad state'')])"
   and s2: "cl_childPropsSelector ex_closure (JNum 1) (lastWrapperProps ex_inst) =
      Inr (JObj 101 [(''count'', JNum 1)])"
    by (simp_all add: ex_closure_eval ex_selector_simps)
  show ?thesis
    using h g[of "JNum (- 1)"] s1 s2
      teardown_throws_latest_error[OF h(1) g[of "JNum (- 1)"] h(2), of ex_inst "snd (snd ex_first_error)"]
      teardown_throws_latest_error[OF h(1) g[of "JNum 1"] h(2), of ex_inst ex_inst]
    by (simp add: ex_first_error_def)
qed

section \<open>The last merged props\<close>

lemma render_keeps_lastChildProps:
  "case ConnectFunction e cfg pa pf i of
     Threw x evs \<Rightarrow> True
   | Rendered out i' \<Rightarrow> lastChildProps i' = (if mounted i then lastChildProps i else Undefined)"
proof (cases "ConnectFunction e cfg pa pf i")
  case (Threw x evs)
  then show ?thesis by simp
next
  case (Rendered out i')
  from Rendered obtain pc rf wp m1 n1 store fromProps sel m2 sub nf m3 n3 ocv m4 n4 st acp evs m6
    where "i' = (useRefs wp
          ((begin_render i)\<lparr> memo_wrapperProps := m1, memo_childPropsSelector := m2,
                memo_subscription := m3, memo_overriddenContextValue := m4,
                next_addr := n4, stateUpdates := st, updateQueue := [] \<rparr>))
          \<lparr> memo_actualChildProps := m6, mounted := True,
             trace := trace (begin_render i) @ evs \<rparr>"
    by (elim ConnectFunction_stages) simp
  then show ?thesis
    by (simp add: Rendered useRefs_def begin_render_def init_inst_def)
qed

text \<open>
  Claim C8, as amended. \<^verbatim>\<open>lastChildProps\<close> is written at two places. The post-commit
  step records the merged props of the render that has just committed. A
  change-detection pass that requests a re-render records its new result at once
  (\<^verbatim>\<open>undefined\<close> when the derivation threw), before the render it has requested
  commits. A pass that requests no re-render, the teardown, and a render of a mounted
  instance leave it as it is; the first render initialises it to \<^verbatim>\<open>undefined\<close>.
\<close>

theorem lastChildProps_writes:
  "lastChildProps (snd (captureWrapperProps wrapperProps actualChildProps notifyNestedSubs i)) =
     actualChildProps \<and>
   lastChildProps (snd (snd (checkForUpdates e c i))) =
     (if updateQueue (snd (snd (checkForUpdates e c i))) = updateQueue i then lastChildProps i
      else (case call_getState e (cl_store c) of
              Inl x \<Rightarrow> lastChildProps i
            | Inr s \<Rightarrow>
               (case cl_childPropsSelector c s (lastWrapperProps i) of
                  Inl x \<Rightarrow> Undefined
                | Inr v \<Rightarrow> v))) \<and>
   lastChildProps (snd (snd (unsubscribeWrapper c i))) = lastChildProps i \<and>
   (case ConnectFunction e cfg pa pf i of
      Threw x evs \<Rightarrow> True
    | Rendered out i' \<Rightarrow> lastChildProps i' = (if mounted i then lastChildProps i else Undefined))"
proof -
  have "lastChildProps (snd (captureWrapperProps wrapperProps actualChildProps notifyNestedSubs i)) =
     actualChildProps"
    by (simp add: captureWrapperProps_def js_call_def Let_def split: jsval.splits)
  moreover have "lastChildProps (snd (snd (checkForUpdates e c i))) =
     (if updateQueue (snd (snd (checkForUpdates e c i))) = updateQueue i then lastChildProps i
      else (case call_getState e (cl_store c) of
              Inl x \<Rightarrow> lastChildProps i
            | Inr s \<Rightarrow>
               (case cl_childPropsSelector c s (lastWrapperProps i) of
                  Inl x \<Rightarrow> Undefined
                | Inr v \<Rightarrow> v)))"
    by (auto simp: checkForUpdates_def forceComponentUpdateDispatch_def js_call_def Let_def
          split: sum.splits jsval.splits prod.splits)
  moreover have "lastChildProps (snd (snd (unsubscribeWrapper c i))) = lastChildProps i"
    by (simp add: unsubscribeWrapper_def Let_def)
  ultimately show ?thesis
    using render_keeps_lastChildProps[where e=e and cfg=cfg and pa=pa and pf=pf and i=i] by simp
qed

text \<open>
  The claim as stated fails: after the store has changed to the state 2, the pass has
  replaced the merged props 101 of the committed render by its own result 102, and no
  render has committed since.
\<close>

theorem lastChildProps_overwritten_before_commit:
  "lastChildProps ex_inst = r_actualChildProps (the_output (ex_mount True True (JNum 1))) \<and>
   r_actualChildProps (the_output (ex_mount True True (JNum 1))) = JObj 101 [(''count'', JNum 1)] \<and>
   fst ex_changed = None \<and>
   lastChildProps (snd (snd ex_changed)) = JObj 102 [(''count'', JNum 2)] \<and>
   lastChildProps (snd (snd ex_changed)) \<noteq>
     r_actualChildProps (the_output (ex_mount True True (JNum 1)))"
  by (simp add: ex_changed_eval ex_inst_eval eval_defs)

section \<open>The merged props of a render\<close>

text \<open>What the computation of the merged props returns, and what it causes.\<close>

lemma js_same_value_trans:
  "js_same_value x y \<Longrightarrow> js_same_value y z \<Longrightarrow> js_same_value x z"
  by (cases x; cases y; cases z) simp_all

lemma js_strict_eq_same_value: "js_strict_eq x y \<Longrightarrow> js_same_value x y"
  by (simp add: js_strict_eq_def)

lemma derived_from_same:
  "derived_from cfg g wp v \<Longrightarrow> js_same_value wp' wp \<Longrightarrow> derived_from cfg g wp' v"
  using js_same_value_trans[of wp' wp "snd (snd g)"]
  by (simp add: derived_from_def split: prod.splits)

lemma derived_from_call:
  "selectorFactory cfg d s wp = Inr v \<Longrightarrow> derived_from cfg (d, s, wp) wp v"
  by (simp add: derived_from_def js_same_value_refl)

lemma useChildPropsSelector_made:
  assumes "useChildPropsSelector cfg store i = Inr (sel, i2)"
    and "selector_made cfg d i"
  shows "\<exists>d'. sel = selectorFactory cfg d' \<and> selector_made cfg d' i2"
  using assms
  by (auto simp: useChildPropsSelector_def selector_made_def memo_lookup_def
      split: option.splits sum.splits if_splits)

lemma useActualChildProps_derived:
  assumes run: "useActualChildProps e cfg store (selectorFactory cfg d) prev wp j =
      (Inr acp, evs, j')"
    and pend: "pending_derived cfg gp j"
    and cell: "cell_derived cfg gc j"
  shows "\<exists>g. derived_from cfg g wp acp \<and> (cell_derived cfg g j' \<or> cell_derived cfg gc j')"
proof (cases "if pure cfg then memo_lookup (memo_actualChildProps j) [store, prev, wp] else None")
  case (Some v)
  then have hit: "memo_lookup (memo_actualChildProps j) [store, prev, wp] = Some v"
    by (simp split: if_splits)
  from memo_lookup_SomeD[OF hit] obtain prevDeps where
    c: "memo_actualChildProps j = Some (prevDeps, v)" and
    d: "list_all2 js_same_value [store, prev, wp] prevDeps"
    by auto
  from d obtain a b w where pd: "prevDeps = [a, b, w]" and same: "js_same_value wp w"
    by (auto simp: list_all2_Cons1)
  from cell c pd have "derived_from cfg gc w v"
    by (simp add: cell_derived_def)
  from derived_from_same[OF this same] have "derived_from cfg gc wp v" .
  moreover from run Some have "acp = v" "j' = j"
    by (simp_all add: useActualChildProps_def Let_def)
  ultimately show ?thesis using cell by (intro exI[where x=gc]) simp
next
  case None
  show ?thesis
  proof (cases "js_truthy (childPropsFromStoreUpdate j) \<and> js_strict_eq wp (lastWrapperProps j)")
    case True
    with run None have acp: "acp = childPropsFromStoreUpdate j"
      and j': "j' = (if pure cfg
                     then j\<lparr> memo_actualChildProps :=
                              Some ([store, prev, wp], childPropsFromStoreUpdate j) \<rparr>
                     else j)"
      by (simp_all add: useActualChildProps_def Let_def)
    from pend True have "derived_from cfg gp (lastWrapperProps j) (childPropsFromStoreUpdate j)"
      by (simp add: pending_derived_def)
    moreover have "js_same_value wp (lastWrapperProps j)"
      using True by (simp add: js_strict_eq_same_value)
    ultimately have "derived_from cfg gp wp acp"
      unfolding acp by (rule derived_from_same)
    then show ?thesis
      using cell by (intro exI[where x=gp]) (simp add: j' cell_derived_def acp)
  next
    case False
    with run None obtain s where
      sel: "selectorFactory cfg d s wp = Inr acp" and
      j': "j' = (if pure cfg then j\<lparr> memo_actualChildProps := Some ([store, prev, wp], acp) \<rparr>
                 else j)"
      by (auto simp: useActualChildProps_def Let_def split: sum.splits if_splits)
    from derived_from_call[OF sel] show ?thesis
      using cell by (intro exI[where x="(d, s, wp)"]) (simp add: j' cell_derived_def)
  qed
qed

lemma useActualChildProps_trace:
  assumes "useActualChildProps e cfg store sel prev wp j = (Inr acp, evs, j')"
  shows "(case (if pure cfg then memo_lookup (memo_actualChildProps j) [store, prev, wp]
                else None) of
            Some cached \<Rightarrow> acp = cached \<and> evs = []
          | None \<Rightarrow>
             if js_truthy (childPropsFromStoreUpdate j) \<and> js_strict_eq wp (lastWrapperProps j)
             then acp = childPropsFromStoreUpdate j \<and> evs = []
             else (\<exists>s. call_getState e store = Inr s \<and> sel s wp = Inr acp \<and>
                       evs = [GetState store, Select s wp]))"
  using assms
  by (auto simp: useActualChildProps_def Let_def split: option.splits sum.splits if_splits)

text \<open>
  Claim C3, as amended. In a render that returns, the merged props are found as
  follows. In pure mode, on a mounted instance whose memo cell was computed for the
  same store, the same last store-update result and the same owner props, the merged
  props of that computation are reused, and the render neither reads the store nor
  calls the derivation function. Otherwise the merged props are the pending
  store-derived props when that value is truthy and the owner props are \<^verbatim>\<open>===\<close> to the
  recorded last owner props, again without a call; and otherwise the result of the
  derivation function on the current state of the store and the current owner props,
  read and called once.

  In each of the three cases the merged props are what a derivation function of the
  component returned for owner props that are the current ones (by \<^verbatim>\<open>Object.is\<close>),
  never for older ones: a pending value is used only with the owner props it was
  derived from, and a recomputation uses the current state with the current owner
  props. This rests on \<open>props_derived\<close>, which holds of an instance before its first
  render; every render keeps it, and so do the post-commit step, the passes, the
  teardown and the subscription effect (lemma \<open>props_derived_kept\<close> below).
\<close>

theorem merged_props_of_a_render:
  assumes render: "ConnectFunction e cfg pa pf i = Rendered out i'"
  shows "(case (if pure cfg \<and> mounted i
                then memo_lookup (memo_actualChildProps i)
                       [r_store out, fst (stateUpdates i'), r_wrapperProps out]
                else None) of
            Some cached \<Rightarrow> r_actualChildProps out = cached \<and> trace i' = trace i
          | None \<Rightarrow>
             if js_truthy (childPropsFromStoreUpdate i') \<and>
                js_strict_eq (r_wrapperProps out) (lastWrapperProps i')
             then r_actualChildProps out = childPropsFromStoreUpdate i' \<and> trace i' = trace i
             else (\<exists>s. call_getState e (r_store out) = Inr s \<and>
                       r_childPropsSelector out s (r_wrapperProps out) =
                         Inr (r_actualChildProps out) \<and>
                       trace i' = trace i @
                         [GetState (r_store out), Select s (r_wrapperProps out)])) \<and>
         (props_derived cfg gp gc d i \<longrightarrow>
            (\<exists>g. derived_from cfg g (r_wrapperProps out) (r_actualChildProps out)) \<and>
            (\<exists>gc' d'. props_derived cfg gp gc' d' i' \<and>
                       r_childPropsSelector out = selectorFactory cfg d'))"
proof -
  from render obtain pc rf wp m1 n1 store fromProps sel m2 sub nf m3 n3 ocv m4 n4 st acp evs m6
    where s3: "useChildPropsSelector cfg store
       ((begin_render i)\<lparr> memo_wrapperProps := m1, next_addr := n1 \<rparr>) =
       Inr (sel, (begin_render i)\<lparr> memo_wrapperProps := m1, next_addr := n1,
                                    memo_childPropsSelector := m2 \<rparr>)"
     and s8: "useActualChildProps e cfg store sel (fst st) wp
       (useRefs wp
          ((begin_render i)\<lparr> memo_wrapperProps := m1, memo_childPropsSelector := m2,
                                memo_subscription := m3, memo_overriddenContextValue := m4,
                                next_addr := n4, stateUpdates := st, updateQueue := [] \<rparr>)) =
       (Inr acp, evs,
        (useRefs wp
          ((begin_render i)\<lparr> memo_wrapperProps := m1, memo_childPropsSelector := m2,
                                memo_subscription := m3, memo_overriddenContextValue := m4,
                                next_addr := n4, stateUpdates := st, updateQueue := [] \<rparr>))
          \<lparr> memo_actualChildProps := m6 \<rparr>)"
     and out: "r_store out = store" "r_wrapperProps out = wp" "r_actualChildProps out = acp"
         "r_childPropsSelector out = sel"
     and i': "i' = (useRefs wp
          ((begin_render i)\<lparr> memo_wrapperProps := m1, memo_childPropsSelector := m2,
                                memo_subscription := m3, memo_overriddenContextValue := m4,
                                next_addr := n4, stateUpdates := st, updateQueue := [] \<rparr>))
          \<lparr> memo_actualChildProps := m6, mounted := True,
             trace := trace (begin_render i) @ evs \<rparr>"
    by (elim ConnectFunction_stages) simp
  let ?j = "useRefs wp
          ((begin_render i)\<lparr> memo_wrapperProps := m1, memo_childPropsSelector := m2,
                                memo_subscription := m3, memo_overriddenContextValue := m4,
                                next_addr := n4, stateUpdates := st, updateQueue := [] \<rparr>)"
  have cell: "memo_actualChildProps ?j = (if mounted i then memo_actualChildProps i else None)"
    by (simp add: useRefs_def begin_render_def init_inst_def)
  have refs: "childPropsFromStoreUpdate i' = childPropsFromStoreUpdate ?j"
    "lastWrapperProps i' = lastWrapperProps ?j" "fst (stateUpdates i') = fst st"
    "trace i' = trace i @ evs"
    by (simp_all add: i' useRefs_def begin_render_def init_inst_def)
  have first: "(case (if pure cfg \<and> mounted i
                then memo_lookup (memo_actualChildProps i)
                       [r_store out, fst (stateUpdates i'), r_wrapperProps out]
                else None) of
            Some cached \<Rightarrow> r_actualChildProps out = cached \<and> trace i' = trace i
          | None \<Rightarrow>
             if js_truthy (childPropsFromStoreUpdate i') \<and>
                js_strict_eq (r_wrapperProps out) (lastWrapperProps i')
             then r_actualChildProps out = childPropsFromStoreUpdate i' \<and> trace i' = trace i
             else (\<exists>s. call_getState e (r_store out) = Inr s \<and>
                       r_childPropsSelector out s (r_wrapperProps out) =
                         Inr (r_actualChildProps out) \<and>
                       trace i' = trace i @
                         [GetState (r_store out), Select s (r_wrapperProps out)]))"
    using useActualChildProps_trace[OF s8] unfolding out refs
    by (auto simp: cell memo_lookup_None split: option.splits if_splits)
  have rest: "(\<exists>g. derived_from cfg g (r_wrapperProps out) (r_actualChildProps out)) \<and>
            (\<exists>gc' d'. props_derived cfg gp gc' d' i' \<and>
                       r_childPropsSelector out = selectorFactory cfg d')"
    if inv: "props_derived cfg gp gc d i"
  proof -
    have sm: "selector_made cfg d
        ((begin_render i)\<lparr> memo_wrapperProps := m1, next_addr := n1 \<rparr>)"
      using inv by (simp add: props_derived_def selector_made_def begin_render_def init_inst_def)
    from useChildPropsSelector_made[OF s3 sm] obtain d' where
      sel: "sel = selectorFactory cfg d'" and m2: "selector_made cfg d' i'"
      by (auto simp: selector_made_def i' useRefs_def)
    have pj: "pending_derived cfg gp ?j"
      using inv
      by (simp add: props_derived_def pending_derived_def useRefs_def begin_render_def
            init_inst_def)
    have cj: "cell_derived cfg gc ?j"
      using inv
      by (simp add: props_derived_def cell_derived_def useRefs_def begin_render_def
            init_inst_def)
    from useActualChildProps_derived[OF s8[unfolded sel] pj cj] obtain g where
      g: "derived_from cfg g wp acp" and
      c6: "cell_derived cfg g (?j\<lparr> memo_actualChildProps := m6 \<rparr>) \<or>
           cell_derived cfg gc (?j\<lparr> memo_actualChildProps := m6 \<rparr>)"
      by auto
    have "cell_derived cfg g i' \<or> cell_derived cfg gc i'"
      using c6 by (simp add: cell_derived_def i')
    then obtain gc' where gc': "cell_derived cfg gc' i'"
      by blast
    have pi': "pending_derived cfg gp i'"
      using pj by (simp add: pending_derived_def refs)
    have kept: "props_derived cfg gp gc' d' i'"
      using pi' gc' m2 by (simp add: props_derived_def)
    have second: "\<exists>g. derived_from cfg g (r_wrapperProps out) (r_actualChildProps out)"
      unfolding out using g ..
    have third: "\<exists>gc' d'. props_derived cfg gp gc' d' i' \<and>
                      r_childPropsSelector out = selectorFactory cfg d'"
      unfolding out using kept sel by (intro exI[where x=gc'] exI[where x=d'] conjI)
    from second third show ?thesis
      by (intro conjI)
  qed
  from rest have "props_derived cfg gp gc d i \<longrightarrow>
            (\<exists>g. derived_from cfg g (r_wrapperProps out) (r_actualChildProps out)) \<and>
            (\<exists>gc' d'. props_derived cfg gp gc' d' i' \<and>
                       r_childPropsSelector out = selectorFactory cfg d')"
    by (rule impI)
  with first show ?thesis
    by (rule conjI)
qed

text \<open>The mounted instance is rendered after the store change to the state 2: the
  memo cell misses, and the pending props 102, derived by the pass from the recorded
  owner props, are the merged props.\<close>

theorem merged_props_of_a_render_witness:
  "ConnectFunction (ex_env (JNum 2)) (ex_config True True) 20 [(''a'', JNum 1)]
       (snd (snd ex_changed)) =
     Rendered (the_output ex_render_after_change) (the_hooks ex_render_after_change) \<and>
   props_derived (ex_config True True) (JFun 3, JNum 2, JObj 30 [(''a'', JNum 1)])
     (JFun 3, JNum 1, JObj 30 [(''a'', JNum 1)]) (JFun 3) (snd (snd ex_changed)) \<and>
   pure (ex_config True True) \<and> mounted (snd (snd ex_changed)) \<and>
   memo_lookup (memo_actualChildProps (snd (snd ex_changed)))
     [r_store (the_output ex_render_after_change),
      fst (stateUpdates (the_hooks ex_render_after_change)),
      r_wrapperProps (the_output ex_render_after_change)] = None \<and>
   js_truthy (childPropsFromStoreUpdate (the_hooks ex_render_after_change)) \<and>
   js_strict_eq (r_wrapperProps (the_output ex_render_after_change))
     (lastWrapperProps (the_hooks ex_render_after_change)) \<and>
   r_actualChildProps (the_output ex_render_after_change) =
     childPropsFromStoreUpdate (the_hooks ex_render_after_change) \<and>
   trace (the_hooks ex_render_after_change) = trace (snd (snd ex_changed)) \<and>
   (\<exists>g. derived_from (ex_config True True) g
          (r_wrapperProps (the_output ex_render_after_change))
          (r_actualChildProps (the_output ex_render_after_change)))"
proof -
  have eq: "ConnectFunction (ex_env (JNum 2)) (ex_config True True) 20 [(''a'', JNum 1)]
       (snd (snd ex_changed)) =
     Rendered (the_output ex_render_after_change) (the_hooks ex_render_after_change)"
    using Rendered_collapse[OF ex_render_after_change_eval(1)]
    by (simp add: ex_render_after_change_def)
  have inv: "props_derived (ex_config True True) (JFun 3, JNum 2, JObj 30 [(''a'', JNum 1)])
     (JFun 3, JNum 1, JObj 30 [(''a'', JNum 1)]) (JFun 3) (snd (snd ex_changed))"
    by (simp add: props_derived_def pending_derived_def cell_derived_def selector_made_def
          derived_from_def ex_changed_eval ex_inst_eval ex_config_def ex_selector_simps)
  have side: "pure (ex_config True True)" "mounted (snd (snd ex_changed))"
    "memo_lookup (memo_actualChildProps (snd (snd ex_changed)))
     [r_store (the_output ex_render_after_change),
      fst (stateUpdates (the_hooks ex_render_after_change)),
      r_wrapperProps (the_output ex_render_after_change)] = None"
    "js_truthy (childPropsFromStoreUpdate (the_hooks ex_render_after_change))"
    "js_strict_eq (r_wrapperProps (the_output ex_render_after_change))
     (lastWrapperProps (the_hooks ex_render_after_change))"
    by (simp_all add: ex_render_after_change_eval ex_changed_eval ex_inst_eval ex_config_def
          memo_lookup_def areHookInputsEqual_def js_strict_eq_def ex_store_def)
  note t = merged_props_of_a_render[OF eq,
      where gp="(JFun 3, JNum 2, JObj 30 [(''a'', JNum 1)])"
        and gc="(JFun 3, JNum 1, JObj 30 [(''a'', JNum 1)])" and d="JFun 3"]
  from conjunct1[OF t] have a:
    "r_actualChildProps (the_output ex_render_after_change) =
       childPropsFromStoreUpdate (the_hooks ex_render_after_change) \<and>
     trace (the_hooks ex_render_after_change) = trace (snd (snd ex_changed))"
    using side by simp
  from conjunct2[OF t] inv have b:
    "\<exists>g. derived_from (ex_config True True) g
          (r_wrapperProps (the_output ex_render_after_change))
          (r_actualChildProps (the_output ex_render_after_change))"
    by simp
  from eq inv side a b show ?thesis
    by (intro conjI) simp_all
qed

text \<open>\<open>props_derived\<close> holds of an instance that has not been rendered, and the
  effects keep it: a pass that stores a pending value has derived it from the recorded
  last owner props, and the post-commit step records new owner props only together
  with clearing the pending value.\<close>

lemma props_derived_init: "props_derived cfg gp gc d (init_inst a)"
  by (simp add: props_derived_def init_inst_def)

lemma props_derived_kept:
  "props_derived cfg gp gc d i \<Longrightarrow> cl_childPropsSelector c = selectorFactory cfg d' \<Longrightarrow>
     \<exists>gp'. props_derived cfg gp' gc d (snd (snd (checkForUpdates e c i)))"
  "props_derived cfg gp gc d i \<Longrightarrow>
     props_derived cfg gp gc d (snd (captureWrapperProps wp cp nf i))"
  "props_derived cfg gp gc d i \<Longrightarrow>
     props_derived cfg gp gc d (snd (snd (unsubscribeWrapper c i)))"
  "props_derived cfg gp gc d i \<Longrightarrow>
     \<exists>gp'. props_derived cfg gp' gc d
       (snd (snd (subscribeUpdates e h store sub (selectorFactory cfg d') nf i)))"
proof -
  have chk: "\<exists>gp'. props_derived cfg gp' gc d (snd (snd (checkForUpdates e c i)))"
    if "props_derived cfg gp gc d i" "cl_childPropsSelector c = selectorFactory cfg d'"
    for c i
  proof (cases "\<exists>s v. \<not> didUnsubscribe c \<and> call_getState e (cl_store c) = Inr s \<and>
                  selectorFactory cfg d' s (lastWrapperProps i) = Inr v \<and>
                  \<not> js_strict_eq v (lastChildProps i)")
    case True
    then obtain s v where h: "\<not> didUnsubscribe c" "call_getState e (cl_store c) = Inr s"
      "selectorFactory cfg d' s (lastWrapperProps i) = Inr v"
      "\<not> js_strict_eq v (lastChildProps i)" by auto
    have "props_derived cfg (d', s, lastWrapperProps i) gc d (snd (snd (checkForUpdates e c i)))"
      using that h
      by (simp add: checkForUpdates_def forceComponentUpdateDispatch_def Let_def
            props_derived_def pending_derived_def cell_derived_def selector_made_def
            derived_from_def js_same_value_refl)
    then show ?thesis ..
  next
    case False
    have "props_derived cfg gp gc d (snd (snd (checkForUpdates e c i)))"
      using that False
      by (auto simp: checkForUpdates_def forceComponentUpdateDispatch_def Let_def js_call_def
            props_derived_def pending_derived_def cell_derived_def selector_made_def
          split: sum.splits jsval.splits if_splits)
    then show ?thesis ..
  qed
  show "props_derived cfg gp gc d i \<Longrightarrow> cl_childPropsSelector c = selectorFactory cfg d' \<Longrightarrow>
     \<exists>gp'. props_derived cfg gp' gc d (snd (snd (checkForUpdates e c i)))"
    by (rule chk)
  show "props_derived cfg gp gc d i \<Longrightarrow>
     props_derived cfg gp gc d (snd (captureWrapperProps wp cp nf i))"
    by (auto simp: captureWrapperProps_def js_call_def Let_def
          props_derived_def pending_derived_def cell_derived_def selector_made_def
        split: jsval.splits)
  show "props_derived cfg gp gc d i \<Longrightarrow>
     props_derived cfg gp gc d (snd (snd (unsubscribeWrapper c i)))"
    by (auto simp: unsubscribeWrapper_def Let_def
          props_derived_def pending_derived_def cell_derived_def selector_made_def)
  show "\<exists>gp'. props_derived cfg gp' gc d
       (snd (snd (subscribeUpdates e h store sub (selectorFactory cfg d') nf i)))"
    if inv: "props_derived cfg gp gc d i"
  proof (cases "h \<and> is_node sub")
    case False
    with inv have "props_derived cfg gp gc d
       (snd (snd (subscribeUpdates e h store sub (selectorFactory cfg d') nf i)))"
      by (auto simp: subscribeUpdates_def Let_def)
    then show ?thesis ..
  next
    case True
    let ?c = "\<lparr> cl_store = store, cl_subscription = sub,
                cl_childPropsSelector = selectorFactory cfg d', cl_notifyNestedSubs = nf,
                didUnsubscribe = False, lastThrownError = Null \<rparr>"
    let ?j = "i\<lparr> trace := trace i @ [SetOnStateChange sub True, TrySubscribe sub] \<rparr>"
    have "props_derived cfg gp gc d ?j"
      using inv
      by (simp add: props_derived_def pending_derived_def cell_derived_def selector_made_def)
    moreover have "cl_childPropsSelector ?c = selectorFactory cfg d'"
      by simp
    ultimately have "\<exists>gp'. props_derived cfg gp' gc d (snd (snd (checkForUpdates e ?c ?j)))"
      by (rule chk)
    then obtain gp' where
      "props_derived cfg gp' gc d (snd (snd (checkForUpdates e ?c ?j)))" ..
    moreover have "snd (snd (subscribeUpdates e h store sub (selectorFactory cfg d') nf i)) =
        snd (snd (checkForUpdates e ?c ?j))"
      using True by (auto simp: subscribeUpdates_def Let_def split: prod.splits option.splits)
    ultimately show ?thesis by (intro exI[where x=gp']) simp
  qed
qed

text \<open>The derivation function of a closure is the one its subscription effect was
  registered with, that is the one of the render, which the factory made; the passes
  do not change it.\<close>

lemma closure_selector_kept:
  "cl_childPropsSelector (fst (snd (checkForUpdates e c i))) = cl_childPropsSelector c"
  "fst (snd (subscribeUpdates e h store sub sel nf i)) = Some c' \<Longrightarrow>
     cl_childPropsSelector c' = sel"
proof -
  show chk: "cl_childPropsSelector (fst (snd (checkForUpdates e c i))) = cl_childPropsSelector c"
    for c i
    by (auto simp: checkForUpdates_def js_call_def Let_def
        split: sum.splits jsval.splits prod.splits)
  assume "fst (snd (subscribeUpdates e h store sub sel nf i)) = Some c'"
  then have "\<exists>c j. c' = fst (snd (checkForUpdates e c j)) \<and> cl_childPropsSelector c = sel"
    by (auto simp: subscribeUpdates_def Let_def split: if_splits prod.splits option.splits
        intro!: exI[where x="\<lparr> cl_store = store, cl_subscription = sub,
                   cl_childPropsSelector = sel, cl_notifyNestedSubs = nf,
                   didUnsubscribe = False, lastThrownError = Null \<rparr>"]
                exI[where x="i\<lparr> trace := trace i @
                            [SetOnStateChange sub True, TrySubscribe sub] \<rparr>"])
  then show "cl_childPropsSelector c' = sel"
    using chk by auto
qed

text \<open>
  The claim as stated fails: nothing is pending at the second render of the pure
  instance, the derivation function would return the props 102 for the current state
  2 and the current owner props, and the render returns the props 101 of the first
  render.
\<close>

theorem pure_render_reuses_merged_props:
  "\<not> is_Threw ex_pure_second_render \<and>
   \<not> js_truthy (childPropsFromStoreUpdate (the_hooks ex_pure_second_render)) \<and>
   call_getState (ex_env_new_context (JNum 2)) (r_store (the_output ex_pure_second_render)) =
     Inr (JNum 2) \<and>
   r_childPropsSelector (the_output ex_pure_second_render) (JNum 2)
       (r_wrapperProps (the_output ex_pure_second_render)) =
     Inr (JObj 102 [(''count'', JNum 2)]) \<and>
   r_actualChildProps (the_output ex_pure_second_render) = JObj 101 [(''count'', JNum 1)] \<and>
   r_actualChildProps (the_output ex_pure_second_render) \<noteq> JObj 102 [(''count'', JNum 2)]"
  by (simp add: ex_pure_second_render_eval ex_selector_simps)
     (simp add: js_defs ex_env_new_context_def ex_store_def)

section \<open>The store of a render\<close>

lemma ConnectFunction_after_resolve:
  assumes "resolveStore e cfg (JObj pa pf) (ambientContextValue e cfg pa pf i) = Inr (store, fp)"
  shows "case ConnectFunction e cfg pa pf i of
           Rendered out i' \<Rightarrow> r_store out = store \<and> r_didStoreComeFromProps out = fp
         | Threw x evs \<Rightarrow> x \<noteq> NewError msg"
  using assms unfolding ConnectFunction_def ambientContextValue_def Let_def
  by (auto split: prod.splits sum.splits dest: stage_errors)

text \<open>
  Claim C6, as amended. At every render: when the \<^verbatim>\<open>store\<close> prop is truthy and its
  \<^verbatim>\<open>getState\<close> and \<^verbatim>\<open>dispatch\<close> are truthy, that store is the store of the render,
  whatever the ambient context holds, and the render does not throw the error of a
  missing store. When it is not, and the ambient context value is truthy with a
  truthy \<^verbatim>\<open>store\<close>, the store of the context is the store of the render. When
  neither holds, and the build is not a production build, the render throws at once
  \<^verbatim>\<open>new Error\<close> with the message that starts
  \<^verbatim>\<open>Could not find "store" in the context of "\<close> followed by the display name.
\<close>

theorem store_resolution:
  "(js_truthy (js_prop (JObj pa pf) ''store'') \<and>
    js_truthy (js_prop (js_prop (JObj pa pf) ''store'') ''getState'') \<and>
    js_truthy (js_prop (js_prop (JObj pa pf) ''store'') ''dispatch'') \<longrightarrow>
      (case ConnectFunction e cfg pa pf i of
         Rendered out i' \<Rightarrow>
           r_store out = js_prop (JObj pa pf) ''store'' \<and> r_didStoreComeFromProps out
       | Threw x evs \<Rightarrow> x \<noteq> NewError (storeNotFoundMessage (displayName cfg)))) \<and>
   (\<not> (js_truthy (js_prop (JObj pa pf) ''store'') \<and>
       js_truthy (js_prop (js_prop (JObj pa pf) ''store'') ''getState'') \<and>
       js_truthy (js_prop (js_prop (JObj pa pf) ''store'') ''dispatch'')) \<and>
    js_truthy (ambientContextValue e cfg pa pf i) \<and>
    js_truthy (js_prop (ambientContextValue e cfg pa pf i) ''store'') \<longrightarrow>
      (case ConnectFunction e cfg pa pf i of
         Rendered out i' \<Rightarrow>
           r_store out = js_prop (ambientContextValue e cfg pa pf i) ''store'' \<and>
           \<not> r_didStoreComeFromProps out
       | Threw x evs \<Rightarrow> x \<noteq> NewError (storeNotFoundMessage (displayName cfg)))) \<and>
   (\<not> production e \<and>
    \<not> (js_truthy (js_prop (JObj pa pf) ''store'') \<and>
       js_truthy (js_prop (js_prop (JObj pa pf) ''store'') ''getState'') \<and>
       js_truthy (js_prop (js_prop (JObj pa pf) ''store'') ''dispatch'')) \<and>
    \<not> (js_truthy (ambientContextValue e cfg pa pf i) \<and>
       js_truthy (js_prop (ambientContextValue e cfg pa pf i) ''store'')) \<longrightarrow>
      ConnectFunction e cfg pa pf i =
        Threw (NewError (storeNotFoundMessage (displayName cfg))) []) \<and>
   (\<exists>rest. storeNotFoundMessage (displayName cfg) =
      ''Could not find '' @ [CHR 0x22] @ ''store'' @ [CHR 0x22] @ '' in the context of '' @
      [CHR 0x22] @ displayName cfg @ [CHR 0x22] @ rest)"
proof (intro conjI impI)
  assume a: "js_truthy (js_prop (JObj pa pf) ''store'') \<and>
    js_truthy (js_prop (js_prop (JObj pa pf) ''store'') ''getState'') \<and>
    js_truthy (js_prop (js_prop (JObj pa pf) ''store'') ''dispatch'')"
  then have "resolveStore e cfg (JObj pa pf) (ambientContextValue e cfg pa pf i) =
      Inr (js_prop (JObj pa pf) ''store'', True)"
    by (simp add: resolveStore_def Let_def)
  from ConnectFunction_after_resolve[OF this, of "storeNotFoundMessage (displayName cfg)"]
  show "case ConnectFunction e cfg pa pf i of
         Rendered out i' \<Rightarrow>
           r_store out = js_prop (JObj pa pf) ''store'' \<and> r_didStoreComeFromProps out
       | Threw x evs \<Rightarrow> x \<noteq> NewError (storeNotFoundMessage (displayName cfg))"
    by (auto split: render_result.splits)
next
  assume a: "\<not> (js_truthy (js_prop (JObj pa pf) ''store'') \<and>
       js_truthy (js_prop (js_prop (JObj pa pf) ''store'') ''getState'') \<and>
       js_truthy (js_prop (js_prop (JObj pa pf) ''store'') ''dispatch'')) \<and>
    js_truthy (ambientContextValue e cfg pa pf i) \<and>
    js_truthy (js_prop (ambientContextValue e cfg pa pf i) ''store'')"
  then have "resolveStore e cfg (JObj pa pf) (ambientContextValue e cfg pa pf i) =
      Inr (js_prop (ambientContextValue e cfg pa pf i) ''store'', False)"
    by (auto simp add: resolveStore_def Let_def js_get_def)
  from ConnectFunction_after_resolve[OF this, of "storeNotFoundMessage (displayName cfg)"]
  show "case ConnectFunction e cfg pa pf i of
         Rendered out i' \<Rightarrow>
           r_store out = js_prop (ambientContextValue e cfg pa pf i) ''store'' \<and>
           \<not> r_didStoreComeFromProps out
       | Threw x evs \<Rightarrow> x \<noteq> NewError (storeNotFoundMessage (displayName cfg))"
    by (auto split: render_result.splits)
next
  assume a: "\<not> production e \<and>
    \<not> (js_truthy (js_prop (JObj pa pf) ''store'') \<and>
       js_truthy (js_prop (js_prop (JObj pa pf) ''store'') ''getState'') \<and>
       js_truthy (js_prop (js_prop (JObj pa pf) ''store'') ''dispatch'')) \<and>
    \<not> (js_truthy (ambientContextValue e cfg pa pf i) \<and>
       js_truthy (js_prop (ambientContextValue e cfg pa pf i) ''store''))"
  then have "resolveStore e cfg (JObj pa pf) (ambientContextValue e cfg pa pf i) =
      Inl (NewError (storeNotFoundMessage (displayName cfg)))"
    by (auto simp add: resolveStore_def Let_def)
  then show "ConnectFunction e cfg pa pf i =
        Threw (NewError (storeNotFoundMessage (displayName cfg))) []"
    unfolding ConnectFunction_def ambientContextValue_def Let_def
    by (auto split: prod.splits)
next
  show "\<exists>rest. storeNotFoundMessage (displayName cfg) =
      ''Could not find '' @ [CHR 0x22] @ ''store'' @ [CHR 0x22] @ '' in the context of '' @
      [CHR 0x22] @ displayName cfg @ [CHR 0x22] @ rest"
    unfolding storeNotFoundMessage_def by (intro exI) (simp only: append_assoc)
qed

text \<open>A store among the props, the store of the provider, and no store at all in a
  development build.\<close>

theorem store_resolution_witness:
  "js_truthy (js_prop (JObj 22 ex_props_with_store) ''store'') \<and>
   js_truthy (js_prop (js_prop (JObj 22 ex_props_with_store) ''store'') ''getState'') \<and>
   js_truthy (js_prop (js_prop (JObj 22 ex_props_with_store) ''store'') ''dispatch'') \<and>
   \<not> is_Threw (ConnectFunction (ex_env (JNum 1)) (ex_config True True) 22 ex_props_with_store
                  (init_inst 30)) \<and>
   r_store (the_output (ConnectFunction (ex_env (JNum 1)) (ex_config True True) 22
                          ex_props_with_store (init_inst 30))) =
     JObj 9 [(''getState'', JFun 2), (''dispatch'', JFun 3)] \<and>
   \<not> js_truthy (js_prop (JObj 20 [(''a'', JNum 1)]) ''store'') \<and>
   js_truthy (js_prop (ambientContextValue (ex_env (JNum 1)) (ex_config True True) 20
                         [(''a'', JNum 1)] (init_inst 30)) ''store'') \<and>
   r_store (the_output (ex_mount True True (JNum 1))) = ex_store \<and>
   \<not> production ex_env_no_provider \<and>
   \<not> js_truthy (ambientContextValue ex_env_no_provider (ex_config True True) 20
                  [(''a'', JNum 1)] (init_inst 30)) \<and>
   ConnectFunction ex_env_no_provider (ex_config True True) 20 [(''a'', JNum 1)] (init_inst 30) =
     Threw (NewError (storeNotFoundMessage ''Connect(App)'')) []"
proof -
  have r1: "\<not> is_Threw (ConnectFunction (ex_env (JNum 1)) (ex_config True True) 22
                  ex_props_with_store (init_inst 30))"
    by (simp add: ex_props_with_store_def eval_defs)
  have r2: "\<not> is_Threw (ex_mount True True (JNum 1))"
    by (simp add: eval_defs)
  have h: "js_truthy (js_prop (JObj 22 ex_props_with_store) ''store'')"
    "js_truthy (js_prop (js_prop (JObj 22 ex_props_with_store) ''store'') ''getState'')"
    "js_truthy (js_prop (js_prop (JObj 22 ex_props_with_store) ''store'') ''dispatch'')"
    "js_prop (JObj 22 ex_props_with_store) ''store'' =
       JObj 9 [(''getState'', JFun 2), (''dispatch'', JFun 3)]"
    "\<not> js_truthy (js_prop (JObj 20 [(''a'', JNum 1)]) ''store'')"
    "ambientContextValue (ex_env (JNum 1)) (ex_config True True) 20
                         [(''a'', JNum 1)] (init_inst 30) = ex_contextValue"
    "js_truthy ex_contextValue" "js_prop ex_contextValue ''store'' = ex_store"
    "js_truthy ex_store"
    "\<not> production ex_env_no_provider"
    "\<not> js_truthy (ambientContextValue ex_env_no_provider (ex_config True True) 20
                  [(''a'', JNum 1)] (init_inst 30))"
    "displayName (ex_config True True) = ''Connect(App)''"
    by (simp_all add: ex_props_with_store_def ambientContextValue_def ex_env_no_provider_def
          eval_defs)
  show ?thesis
    using r1 r2 h
      store_resolution[where pa=22 and pf=ex_props_with_store and e="ex_env (JNum 1)"
        and cfg="ex_config True True" and i="init_inst 30"]
      store_resolution[where pa=20 and pf="[(''a'', JNum 1)]" and e="ex_env (JNum 1)"
        and cfg="ex_config True True" and i="init_inst 30"]
      store_resolution[where pa=20 and pf="[(''a'', JNum 1)]" and e=ex_env_no_provider
        and cfg="ex_config True True" and i="init_inst 30"]
    by (auto simp: ex_mount_def split: render_result.splits)
qed

text \<open>
  The claim as stated fails: in a production build line 338 skips the check, and
  without any store the render throws the \<^verbatim>\<open>TypeError\<close> of reading
  \<^verbatim>\<open>contextValue.store\<close> on \<^verbatim>\<open>null\<close>, not the error of a missing store.
\<close>

theorem production_build_throws_type_error:
  "production ex_env_production \<and>
   \<not> js_truthy (js_prop (JObj 20 [(''a'', JNum 1)]) ''store'') \<and>
   \<not> js_truthy (ambientContextValue ex_env_production (ex_config True True) 20
                  [(''a'', JNum 1)] (init_inst 30)) \<and>
   ConnectFunction ex_env_production (ex_config True True) 20 [(''a'', JNum 1)] (init_inst 30) =
     Threw TypeError [] \<and>
   ConnectFunction ex_env_production (ex_config True True) 20 [(''a'', JNum 1)] (init_inst 30) \<noteq>
     Threw (NewError (storeNotFoundMessage (displayName (ex_config True True)))) []"
  by (simp add: ex_no_provider_eval) (simp add: ex_env_production_def)

section \<open>The notification node and the context of the descendants\<close>

text \<open>The memo cells are touched by renders only: the post-commit step, a
  change-detection pass, the subscription and the teardown keep them as they are.\<close>

lemma cells_wired_kept:
  "cells_wired cfg (snd (captureWrapperProps wrapperProps actualChildProps notifyNestedSubs i)) =
     cells_wired cfg i"
  "cells_wired cfg (snd (snd (checkForUpdates e c i))) = cells_wired cfg i"
  "cells_wired cfg (snd (snd (unsubscribeWrapper c i))) = cells_wired cfg i"
  "cells_wired cfg (snd (snd (subscribeUpdates e h store sub sel nf i))) = cells_wired cfg i"
proof -
  show "cells_wired cfg (snd (captureWrapperProps wrapperProps actualChildProps notifyNestedSubs i)) =
     cells_wired cfg i"
    by (simp add: captureWrapperProps_def js_call_def cells_wired_def Let_def split: jsval.splits)
  show chk: "cells_wired cfg (snd (snd (checkForUpdates e c i))) = cells_wired cfg i" for c i
    by (simp add: checkForUpdates_def forceComponentUpdateDispatch_def js_call_def
          cells_wired_def Let_def split: sum.splits jsval.splits)
  show "cells_wired cfg (snd (snd (unsubscribeWrapper c i))) = cells_wired cfg i"
    by (simp add: unsubscribeWrapper_def cells_wired_def Let_def)
  show "cells_wired cfg (snd (snd (subscribeUpdates e h store sub sel nf i))) = cells_wired cfg i"
  proof -
    let ?c = "\<lparr> cl_store = store, cl_subscription = sub, cl_childPropsSelector = sel,
                cl_notifyNestedSubs = nf, didUnsubscribe = False, lastThrownError = Null \<rparr>"
    let ?j = "i\<lparr> trace := trace i @ [SetOnStateChange sub True, TrySubscribe sub] \<rparr>"
    obtain x c' i' where r: "checkForUpdates e ?c ?j = (x, c', i')"
      by (cases "checkForUpdates e ?c ?j") auto
    have "cells_wired cfg i' = cells_wired cfg ?j"
      using chk[of ?c ?j] by (simp add: r)
    also have "\<dots> = cells_wired cfg i"
      by (simp add: cells_wired_def)
    finally show ?thesis
      by (cases x) (simp_all add: subscribeUpdates_def Let_def r)
  qed
qed




section \<open>The owner props\<close>




end
